theory Spec2Isabelle
  imports Main
begin

section \<open>Results, values and batches\<close>

text \<open>
  The unit under study is \<^verbatim>\<open>cpp/src/arrow/dataset/scanner_internal.h\<close>: the two batch
  stages \<^verbatim>\<open>FilterRecordBatch\<close> and \<^verbatim>\<open>ProjectRecordBatch\<close>, the decorator
  \<^verbatim>\<open>FilterAndProjectScanTask\<close> and the materializer \<^verbatim>\<open>GetScanTaskIterator\<close>.
  Everything the header includes (results, iterators, expressions, the evaluator, the
  projector, fragments) is a collaborator and is modelled at its interface.
\<close>

text \<open>A non-OK \<^verbatim>\<open>arrow::Status\<close>; \<^verbatim>\<open>Result<T>\<close> is a sum with the error on the left.\<close>

datatype status = Invalid string | TypeError string | IOError string

type_synonym 'a result = "status + 'a"

text \<open>
  Modelled from the spec: \<^verbatim>\<open>Result<T>::Map\<close> (\<^verbatim>\<open>arrow/result.h\<close>, not in the unit): a
  failure is passed on, a value is handed to the function, which may fail itself.
\<close>

definition Result_Map :: "('a \<Rightarrow> 'b result) \<Rightarrow> 'a result \<Rightarrow> 'b result" where
  "Result_Map m r = (case r of Inl e \<Rightarrow> Inl e | Inr v \<Rightarrow> m v)"

datatype data_type = utf8 | int64

datatype scalar = StringScalar string | Int64Scalar int

fun scalar_type :: "scalar \<Rightarrow> data_type" where
  "scalar_type (StringScalar s) = utf8"
| "scalar_type (Int64Scalar i) = int64"

text \<open>
  Modelled from the spec: the columnar batch (\<^verbatim>\<open>RecordBatch\<close>, not in the unit). The unit
  never looks inside a batch, so a batch is its list of rows, a row binding column names
  to values.
\<close>

type_synonym row = "(string \<times> scalar) list"

type_synonym record_batch = "row list"

type_synonym memory_pool = nat

section \<open>Predicate expressions\<close>

text \<open>
  Modelled from the spec: the predicate expression (\<^verbatim>\<open>arrow/dataset/filter.h\<close>, not in the
  unit), an immutable tree denoting a boolean computation over a row.
\<close>

datatype expression =
    ScalarExpression bool
  | FieldEquals string scalar
  | AndExpression expression expression
  | OrExpression expression expression
  | NotExpression expression

text \<open>
  Modelled from the spec: the key/value bindings of a partition predicate, a conjunction
  of equalities between a column and a constant.
\<close>

fun GetKeys :: "expression \<Rightarrow> (string \<times> scalar) list" where
  "GetKeys (FieldEquals f v) = [(f, v)]"
| "GetKeys (AndExpression a b) = GetKeys a @ GetKeys b"
| "GetKeys (ScalarExpression b) = []"
| "GetKeys (OrExpression a b) = []"
| "GetKeys (NotExpression a) = []"

text \<open>
  Modelled from the spec: \<^verbatim>\<open>Expression::Assume(const Expression& given)\<close>, the
  specialization that folds the known-true bindings of \<open>given\<close> into the predicate.
\<close>

fun AssumeGiven :: "expression \<Rightarrow> expression \<Rightarrow> expression" where
  "AssumeGiven (ScalarExpression b) given = ScalarExpression b"
| "AssumeGiven (FieldEquals f v) given =
     (case map_of (GetKeys given) f of
        None \<Rightarrow> FieldEquals f v
      | Some x \<Rightarrow> ScalarExpression (x = v))"
| "AssumeGiven (AndExpression a b) given =
     AndExpression (AssumeGiven a given) (AssumeGiven b given)"
| "AssumeGiven (OrExpression a b) given =
     OrExpression (AssumeGiven a given) (AssumeGiven b given)"
| "AssumeGiven (NotExpression a) given = NotExpression (AssumeGiven a given)"

text \<open>
  Modelled from the spec: \<^verbatim>\<open>Expression::Assume(const std::shared_ptr<Expression>&)\<close>, the
  overload the unit calls with the task's partition pointer. An absent (null) partition
  predicate reduces to the predicate unchanged.
\<close>

definition Assume :: "expression \<Rightarrow> expression option \<Rightarrow> expression" where
  "Assume e given = (case given of None \<Rightarrow> e | Some g \<Rightarrow> AssumeGiven e g)"

section \<open>The predicate evaluator\<close>

text \<open>The selection value (\<^verbatim>\<open>compute::Datum\<close>) is a boolean mask, one entry per row.\<close>

type_synonym datum = "bool list"

text \<open>
  \<^verbatim>\<open>ExpressionEvaluator\<close> is an abstract interface handed to the filter stage by
  reference: a record of its two operations.
\<close>

record expression_evaluator =
  Evaluate :: "expression \<Rightarrow> record_batch \<Rightarrow> memory_pool \<Rightarrow> datum result"
  Filter :: "datum \<Rightarrow> record_batch \<Rightarrow> record_batch result"

fun EvaluateRow :: "expression \<Rightarrow> row \<Rightarrow> bool result" where
  "EvaluateRow (ScalarExpression b) r = Inr b"
| "EvaluateRow (FieldEquals f v) r =
     (case map_of r f of
        None \<Rightarrow> Inl (Invalid ''field not found'')
      | Some x \<Rightarrow>
          if scalar_type x = scalar_type v then Inr (x = v)
          else Inl (TypeError ''cannot compare''))"
| "EvaluateRow (AndExpression a b) r =
     (case EvaluateRow a r of
        Inl e \<Rightarrow> Inl e
      | Inr x \<Rightarrow> (case EvaluateRow b r of Inl e \<Rightarrow> Inl e | Inr y \<Rightarrow> Inr (x \<and> y)))"
| "EvaluateRow (OrExpression a b) r =
     (case EvaluateRow a r of
        Inl e \<Rightarrow> Inl e
      | Inr x \<Rightarrow> (case EvaluateRow b r of Inl e \<Rightarrow> Inl e | Inr y \<Rightarrow> Inr (x \<or> y)))"
| "EvaluateRow (NotExpression a) r =
     (case EvaluateRow a r of Inl e \<Rightarrow> Inl e | Inr x \<Rightarrow> Inr (\<not> x))"

fun EvaluateRows :: "expression \<Rightarrow> record_batch \<Rightarrow> datum result" where
  "EvaluateRows e [] = Inr []"
| "EvaluateRows e (r # rs) =
     (case EvaluateRow e r of
        Inl s \<Rightarrow> Inl s
      | Inr b \<Rightarrow> (case EvaluateRows e rs of Inl s \<Rightarrow> Inl s | Inr bs \<Rightarrow> Inr (b # bs)))"

fun ApplyMask :: "datum \<Rightarrow> record_batch \<Rightarrow> record_batch" where
  "ApplyMask (m # ms) (r # rs) = (if m then r # ApplyMask ms rs else ApplyMask ms rs)"
| "ApplyMask ms rs = []"

text \<open>
  Modelled from the spec: the evaluator the scan options carry by default
  (\<^verbatim>\<open>evaluate(predicate, batch, allocator) -> Result<SelectionValue>\<close>,
  \<^verbatim>\<open>filter(selection, batch) -> Result<Batch>\<close>). Evaluation fails on a row that lacks a
  referenced column or holds a value of another type; applying a selection fails when the
  mask does not have one entry per row.
\<close>

definition TreeEvaluator :: expression_evaluator where
  "TreeEvaluator =
     \<lparr> Evaluate = (\<lambda>e batch pool. EvaluateRows e batch),
       Filter = (\<lambda>selection batch.
         if length selection = length batch then Inr (ApplyMask selection batch)
         else Inl (Invalid ''selection length mismatch'')) \<rparr>"

section \<open>The projector\<close>

text \<open>
  Modelled from the spec: \<^verbatim>\<open>RecordBatchProjector\<close> (\<^verbatim>\<open>dataset_internal.h\<close>, not in the
  unit), a mutable helper holding the target schema, the configured default values and
  scratch space that \<^verbatim>\<open>Project\<close> resizes to the batch's row count.
\<close>

record record_batch_projector =
  to_schema :: "(string \<times> data_type) list"
  default_values :: "(string \<times> scalar) list"
  scratch_rows :: nat

fun ProjectRow ::
  "(string \<times> data_type) list \<Rightarrow> (string \<times> scalar) list \<Rightarrow> row \<Rightarrow> row result" where
  "ProjectRow [] defaults r = Inr []"
| "ProjectRow ((name, ty) # schema) defaults r =
     (case (case map_of r name of
              Some x \<Rightarrow> if scalar_type x = ty then Inr x
                        else Inl (TypeError ''incompatible column type'')
            | None \<Rightarrow> (case map_of defaults name of
                         Some d \<Rightarrow> Inr d
                       | None \<Rightarrow> Inl (Invalid ''missing column with no default''))) of
        Inl e \<Rightarrow> Inl e
      | Inr v \<Rightarrow> (case ProjectRow schema defaults r of
                    Inl e \<Rightarrow> Inl e
                  | Inr out \<Rightarrow> Inr ((name, v) # out)))"

fun ProjectRows ::
  "(string \<times> data_type) list \<Rightarrow> (string \<times> scalar) list \<Rightarrow> record_batch
     \<Rightarrow> record_batch result" where
  "ProjectRows schema defaults [] = Inr []"
| "ProjectRows schema defaults (r # rs) =
     (case ProjectRow schema defaults r of
        Inl e \<Rightarrow> Inl e
      | Inr out \<Rightarrow> (case ProjectRows schema defaults rs of
                      Inl e \<Rightarrow> Inl e
                    | Inr outs \<Rightarrow> Inr (out # outs)))"

text \<open>
  Modelled from the spec: \<^verbatim>\<open>project(batch, allocator) -> Result<Batch>\<close>. The call
  writes the projector's scratch state, so it returns the projector it leaves behind.
\<close>

definition Project ::
  "record_batch_projector \<Rightarrow> record_batch \<Rightarrow> memory_pool
     \<Rightarrow> record_batch result \<times> record_batch_projector" where
  "Project p batch pool =
     (ProjectRows (to_schema p) (default_values p) batch,
      p\<lparr>scratch_rows := max (scratch_rows p) (length batch)\<rparr>)"

definition SetDefaultValue ::
  "record_batch_projector \<Rightarrow> string \<Rightarrow> scalar \<Rightarrow> record_batch_projector result" where
  "SetDefaultValue p name v =
     (case map_of (to_schema p) name of
        None \<Rightarrow> Inr p
      | Some ty \<Rightarrow>
          if scalar_type v = ty
          then Inr (p\<lparr>default_values := (name, v) # default_values p\<rparr>)
          else Inl (TypeError ''default value of another type''))"

fun SetDefaultValues ::
  "(string \<times> scalar) list \<Rightarrow> record_batch_projector \<Rightarrow> record_batch_projector result" where
  "SetDefaultValues [] p = Inr p"
| "SetDefaultValues ((name, v) # keys) p =
     (case SetDefaultValue p name v of
        Inl e \<Rightarrow> Inl e
      | Inr p' \<Rightarrow> SetDefaultValues keys p')"

text \<open>
  Modelled from the spec: \<^verbatim>\<open>KeyValuePartitioning::SetDefaultValuesFromKeys\<close>
  (\<^verbatim>\<open>partition.h\<close>, not in the unit): each key/value binding of the partition predicate
  whose column is in the target schema becomes that column's default; a binding of
  another type than the column fails.
\<close>

definition SetDefaultValuesFromKeys ::
  "expression \<Rightarrow> record_batch_projector \<Rightarrow> record_batch_projector result" where
  "SetDefaultValuesFromKeys expr p = SetDefaultValues (GetKeys expr) p"

section \<open>Fragments, events and the world\<close>

text \<open>
  What executing a raw scan task gives: a failure to start, or its raw sequence of
  batches, each element a batch or a failure.
\<close>

type_synonym task_body = "(record_batch result list) result"

text \<open>
  Modelled from the spec: the data fragment (\<^verbatim>\<open>Fragment\<close>, an abstract class not in the
  unit). It owns its partition predicate, a nullable pointer, and what its scan
  operation gives: a failure, or its sequence of raw scan tasks.
\<close>

record fragment =
  partition_expression :: "expression option"
  scan_result :: "(task_body result list) result"

text \<open>One event per call into a collaborator, in program order.\<close>

datatype event =
    EvScan fragment
  | EvExecute task_body
  | EvAssume expression "expression option"
  | EvEvaluate expression record_batch
  | EvFilter datum record_batch
  | EvSetDefaults expression nat
  | EvCopyProjector nat
  | EvProject record_batch

text \<open>
  The world the unit runs in: the trace of collaborator calls, and the store of the
  projector objects that are reached through pointers (the template embedded in the
  shared scan options, and the member embedded in each decorated task), with the next
  free address.
\<close>

record world =
  trace :: "event list"
  projectors :: "nat \<Rightarrow> record_batch_projector"
  next_addr :: nat

definition emit :: "event \<Rightarrow> world \<Rightarrow> world" where
  "emit e w = w\<lparr>trace := trace w @ [e]\<rparr>"

text \<open>Writing a projector object at an address, and taking a fresh address.\<close>

definition store_projector :: "nat \<Rightarrow> record_batch_projector \<Rightarrow> world \<Rightarrow> world" where
  "store_projector a p w = w\<lparr>projectors := (projectors w)(a := p)\<rparr>"

definition allocate :: "world \<Rightarrow> nat \<times> world" where
  "allocate w = (next_addr w, w\<lparr>next_addr := Suc (next_addr w)\<rparr>)"

record scan_options =
  filter_expr :: expression
  evaluator :: expression_evaluator
  projector :: nat

record scan_context =
  pool :: memory_pool

text \<open>A raw scan task: the options and context it carries, and what executing it gives.\<close>

record scan_task =
  task_options :: scan_options
  task_context :: scan_context
  task_batches :: task_body

section \<open>Lazy sequences\<close>

text \<open>
  Modelled from the spec: the iterator abstraction (\<^verbatim>\<open>arrow/util/iterator.h\<close>, not in
  the unit), a pull-based sequence whose \<open>next\<close> produces \<open>Option<Result<T>>\<close>:
  \<open>None\<close> at the end, else a value or a failure. An iterator is a step function with
  the state it steps; a pull returns the iterator it leaves behind.
\<close>

datatype ('s, 'a) iterator =
  Iterator (next_fn: "'s \<Rightarrow> world \<Rightarrow> 'a result option \<times> 's \<times> world") (cursor: 's)

definition Next ::
  "('s, 'a) iterator \<Rightarrow> world \<Rightarrow> 'a result option \<times> ('s, 'a) iterator \<times> world" where
  "Next it w =
     (case next_fn it (cursor it) w of
        (r, s', w') \<Rightarrow> (r, Iterator (next_fn it) s', w'))"

text \<open>
  An externally produced finite sequence (raw batches of a task, raw tasks of a
  fragment, the fragments themselves): each pull pops the front element.
\<close>

definition SequenceIterator :: "'a result list \<Rightarrow> ('a result list, 'a) iterator" where
  "SequenceIterator xs =
     Iterator (\<lambda>s w. case s of [] \<Rightarrow> (None, [], w) | x # s' \<Rightarrow> (Some x, s', w)) xs"

text \<open>
  Modelled from the spec: \<^verbatim>\<open>MakeMaybeMapIterator\<close>. Each pull pulls one element
  from the wrapped sequence; the end and a failure pass through, a value is handed to
  the mapping function, whose result (a value or a failure) is the element yielded.
  The unit uses this one combinator for the filter stage, for the projection stage and
  for the map from fragments to their task sequences. For the fragments the spec has
  the sequence go on after a failed element, so the combinator is given no failed
  state. For a task's batch sequence the spec has a failure end the sequence: there the
  consumer pulls no further (see \<open>Consume\<close>), and nothing that is proved about what
  the batch stages yield rests on a pull beyond a failed element.
\<close>

definition MakeMaybeMapIterator ::
  "('i \<Rightarrow> world \<Rightarrow> 'o result \<times> world) \<Rightarrow> ('s, 'i) iterator \<Rightarrow> ('s, 'o) iterator" where
  "MakeMaybeMapIterator f it =
     Iterator
       (\<lambda>s w. case next_fn it s w of
          (None, s', w') \<Rightarrow> (None, s', w')
        | (Some (Inl e), s', w') \<Rightarrow> (Some (Inl e), s', w')
        | (Some (Inr i), s', w') \<Rightarrow> (case f i w' of (out, w'') \<Rightarrow> (Some out, s', w'')))
       (cursor it)"

text \<open>
  Modelled from the spec: \<^verbatim>\<open>MakeMapIterator\<close>, for a mapping function that cannot
  fail. The map iterator owns the function object it was given; here the state of that
  object (its by-value captures) is kept beside the cursor and every call returns the
  state it leaves, so that a call which consumed a capture would be seen by the next one.
\<close>

definition MakeMapIterator ::
  "('f \<Rightarrow> 'i \<Rightarrow> world \<Rightarrow> ('o \<times> 'f) \<times> world) \<Rightarrow> 'f \<Rightarrow> ('s, 'i) iterator
     \<Rightarrow> ('f \<times> 's, 'o) iterator" where
  "MakeMapIterator f captures it =
     Iterator
       (\<lambda>(c, s) w. case next_fn it s w of
          (None, s', w') \<Rightarrow> (None, (c, s'), w')
        | (Some (Inl e), s', w') \<Rightarrow> (Some (Inl e), (c, s'), w')
        | (Some (Inr i), s', w') \<Rightarrow>
            (case f c i w' of ((out, c'), w'') \<Rightarrow> (Some (Inr out), (c', s'), w'')))
       (captures, cursor it)"

text \<open>
  Modelled from the spec: \<^verbatim>\<open>MakeFlattenIterator\<close>, state carrying the current inner
  sequence and the outer sequence, advancing the inner one first. With no current inner
  sequence it pulls the outer one: the end ends the flattened sequence, a failure is
  yielded as one element, an inner sequence becomes current. An exhausted inner
  sequence is dropped and the outer one is pulled again. The pull loops while inner
  sequences are empty, so it is a partial function: \<open>None\<close> is a pull that never
  returns.
\<close>

datatype ('c, 'p, 'a) flatten_iterator =
  FlattenIterator
    (child: "('c, 'a) iterator option")
    (parent: "('p, ('c, 'a) iterator) iterator")

definition MakeFlattenIterator ::
  "('p, ('c, 'a) iterator) iterator \<Rightarrow> ('c, 'p, 'a) flatten_iterator" where
  "MakeFlattenIterator it = FlattenIterator None it"

partial_function (option) FlattenNext ::
  "('c, 'p, 'a) flatten_iterator \<Rightarrow> world
     \<Rightarrow> ('a result option \<times> ('c, 'p, 'a) flatten_iterator \<times> world) option" where
  "FlattenNext it w =
     (case child it of
        None \<Rightarrow>
          (case Next (parent it) w of
             (None, p', w') \<Rightarrow> Some (None, FlattenIterator None p', w')
           | (Some (Inl e), p', w') \<Rightarrow> Some (Some (Inl e), FlattenIterator None p', w')
           | (Some (Inr c), p', w') \<Rightarrow> FlattenNext (FlattenIterator (Some c) p') w')
      | Some c \<Rightarrow>
          (case Next c w of
             (None, c', w') \<Rightarrow> FlattenNext (FlattenIterator None (parent it)) w'
           | (Some out, c', w') \<Rightarrow> Some (Some out, FlattenIterator (Some c') (parent it), w')))"

declare FlattenNext.simps [code]

section \<open>The batch stages\<close>

text \<open>
  \<^verbatim>\<open>FilterRecordBatch\<close>: the mapping function evaluates the predicate on the pulled
  batch and, through \<^verbatim>\<open>Result::Map\<close>, applies the selection to that batch; a failed
  evaluation is the element yielded, and then no selection is applied.
\<close>

definition FilterRecordBatch ::
  "('s, record_batch) iterator \<Rightarrow> expression_evaluator \<Rightarrow> expression \<Rightarrow> memory_pool
     \<Rightarrow> ('s, record_batch) iterator" where
  "FilterRecordBatch it ev flt pl =
     MakeMaybeMapIterator
       (\<lambda>in_batch w.
          let selection = Evaluate ev flt in_batch pl;
              w1 = emit (EvEvaluate flt in_batch) w
          in (Result_Map (\<lambda>sel. Filter ev sel in_batch) selection,
              (case selection of
                 Inl e \<Rightarrow> w1
               | Inr sel \<Rightarrow> emit (EvFilter sel in_batch) w1)))
       it"

text \<open>
  \<^verbatim>\<open>ProjectRecordBatch\<close>: the mapping function captures the pointer; on every call it
  copy-constructs \<^verbatim>\<open>local_projector\<close> from the object the pointer refers to, projects
  the batch with that local, and the local (with whatever \<^verbatim>\<open>Project\<close> wrote to it) is
  destroyed when the call returns. Nothing is written through the pointer.
\<close>

definition ProjectRecordBatch ::
  "('s, record_batch) iterator \<Rightarrow> nat \<Rightarrow> memory_pool \<Rightarrow> ('s, record_batch) iterator" where
  "ProjectRecordBatch it projector_ptr pl =
     MakeMaybeMapIterator
       (\<lambda>in_batch w.
          let local_projector = projectors w projector_ptr;
              w1 = emit (EvCopyProjector projector_ptr) w
          in case Project local_projector in_batch pl of
               (out, local_after) \<Rightarrow> (out, emit (EvProject in_batch) w1))
       it"

section \<open>The decorated scan task\<close>

text \<open>
  \<^verbatim>\<open>FilterAndProjectScanTask\<close>. The members \<^verbatim>\<open>options_\<close> and \<^verbatim>\<open>context_\<close> are those
  of the base class, \<^verbatim>\<open>task_\<close>, \<^verbatim>\<open>partition_\<close> (nullable), \<^verbatim>\<open>filter_\<close> (nullable) and
  \<^verbatim>\<open>projector_\<close> its own. The projector member is an object of its own in the store;
  the record holds its address.
\<close>

record filter_and_project_scan_task =
  fp_options :: scan_options
  fp_context :: scan_context
  fp_task :: scan_task
  fp_partition :: "expression option"
  fp_filter :: "expression option"
  fp_projector :: nat

text \<open>
  The constructor: options and context are the wrapped task's, the filter starts null,
  and the projector member is copy-constructed from the template in the options.
\<close>

definition FilterAndProjectScanTask ::
  "scan_task \<Rightarrow> expression option \<Rightarrow> world \<Rightarrow> filter_and_project_scan_task \<times> world" where
  "FilterAndProjectScanTask tsk part w =
     (case allocate w of
        (a, w1) \<Rightarrow>
          let template = projector (task_options tsk);
              w2 = store_projector a (projectors w1 template) (emit (EvCopyProjector template) w1)
          in (\<lparr> fp_options = task_options tsk, fp_context = task_context tsk, fp_task = tsk,
                fp_partition = part, fp_filter = None, fp_projector = a \<rparr>,
              w2))"

text \<open>Executing the wrapped raw task (a virtual call): a failure, or its raw sequence.\<close>

definition ScanTaskExecute ::
  "scan_task \<Rightarrow> world \<Rightarrow> ((record_batch result list, record_batch) iterator) result \<times> world" where
  "ScanTaskExecute tsk w =
     ((case task_batches tsk of Inl e \<Rightarrow> Inl e | Inr raw \<Rightarrow> Inr (SequenceIterator raw)),
      emit (EvExecute (task_batches tsk)) w)"

text \<open>
  \<^verbatim>\<open>FilterAndProjectScanTask::Execute\<close>, returning the sequence (or the failure), the
  task as the call leaves it, and the world.
\<close>

definition Execute ::
  "filter_and_project_scan_task \<Rightarrow> world
     \<Rightarrow> ((record_batch result list, record_batch) iterator) result
        \<times> filter_and_project_scan_task \<times> world" where
  "Execute t w =
     (case ScanTaskExecute (fp_task t) w of
        (Inl e, w1) \<Rightarrow> (Inl e, t, w1)
      | (Inr it, w1) \<Rightarrow>
          (let flt = Assume (filter_expr (fp_options t)) (fp_partition t);
               w2 = emit (EvAssume (filter_expr (fp_options t)) (fp_partition t)) w1;
               t2 = t\<lparr>fp_filter := Some flt\<rparr>;
               filter_it =
                 FilterRecordBatch it (evaluator (fp_options t)) flt (pool (fp_context t))
           in (case fp_partition t of
                 None \<Rightarrow>
                   (Inr (ProjectRecordBatch filter_it (fp_projector t) (pool (fp_context t))),
                    t2, w2)
               | Some part \<Rightarrow>
                   (case SetDefaultValuesFromKeys part (projectors w2 (fp_projector t)) of
                      Inl e \<Rightarrow> (Inl e, t2, emit (EvSetDefaults part (fp_projector t)) w2)
                    | Inr p' \<Rightarrow>
                        (Inr (ProjectRecordBatch filter_it (fp_projector t)
                                (pool (fp_context t))),
                         t2,
                         store_projector (fp_projector t) p'
                           (emit (EvSetDefaults part (fp_projector t)) w2))))))"

section \<open>The scan task materializer\<close>

text \<open>
  Modelled from the spec: \<^verbatim>\<open>Fragment::Scan(options, context)\<close>, a virtual call. The raw
  tasks it yields carry the options and context they were scanned with.
\<close>

definition raw_task :: "scan_options \<Rightarrow> scan_context \<Rightarrow> task_body \<Rightarrow> scan_task" where
  "raw_task opts ctx b = \<lparr> task_options = opts, task_context = ctx, task_batches = b \<rparr>"

definition raw_tasks :: "scan_options \<Rightarrow> scan_context \<Rightarrow> task_body result list
     \<Rightarrow> scan_task result list" where
  "raw_tasks opts ctx bodies = map (map_sum id (raw_task opts ctx)) bodies"

definition Scan ::
  "fragment \<Rightarrow> scan_options \<Rightarrow> scan_context \<Rightarrow> world
     \<Rightarrow> ((scan_task result list, scan_task) iterator) result \<times> world" where
  "Scan frag opts ctx w =
     ((case scan_result frag of
         Inl e \<Rightarrow> Inl e
       | Inr bodies \<Rightarrow> Inr (SequenceIterator (raw_tasks opts ctx bodies))),
      emit (EvScan frag) w)"

text \<open>
  \<^verbatim>\<open>std::move\<close> applied to a const \<^verbatim>\<open>shared_ptr\<close>: the result is a const rvalue, from
  which a by-value parameter is copy-constructed. The first component is what the callee
  receives, the second what the source holds afterwards.
\<close>

definition move_const :: "'a option \<Rightarrow> 'a option \<times> 'a option" where
  "move_const p = (p, p)"

text \<open>
  The closure \<^verbatim>\<open>wrap_scan_task\<close> captures the partition by value and is not declared
  mutable, so its capture is const inside the call. A call returns the decorated task
  with the capture as the call leaves it.
\<close>

definition wrap_scan_task ::
  "expression option \<Rightarrow> scan_task \<Rightarrow> world
     \<Rightarrow> (filter_and_project_scan_task \<times> expression option) \<times> world" where
  "wrap_scan_task captured tsk w =
     (case move_const captured of
        (arg, captured_after) \<Rightarrow>
          (case FilterAndProjectScanTask tsk arg w of
             (t, w') \<Rightarrow> ((t, captured_after), w')))"

text \<open>
  The closure \<^verbatim>\<open>fn\<close> of \<^verbatim>\<open>GetScanTaskIterator\<close>, from a fragment to the sequence of
  its decorated tasks: a failed scan is returned at once; otherwise the fragment's
  partition predicate is captured by the wrapping closure, which is mapped over the raw
  tasks.
\<close>

definition GetScanTaskIterator_fn ::
  "scan_options \<Rightarrow> scan_context \<Rightarrow> fragment \<Rightarrow> world
     \<Rightarrow> ((expression option \<times> scan_task result list, filter_and_project_scan_task) iterator)
          result \<times> world" where
  "GetScanTaskIterator_fn opts ctx frag w =
     (case Scan frag opts ctx w of
        (Inl e, w1) \<Rightarrow> (Inl e, w1)
      | (Inr scan_task_it, w1) \<Rightarrow>
          (let part = partition_expression frag
           in (Inr (MakeMapIterator wrap_scan_task part scan_task_it), w1)))"

definition GetScanTaskIterator ::
  "('p, fragment) iterator \<Rightarrow> scan_options \<Rightarrow> scan_context
     \<Rightarrow> (expression option \<times> scan_task result list, 'p, filter_and_project_scan_task)
          flatten_iterator" where
  "GetScanTaskIterator fragments opts ctx =
     MakeFlattenIterator (MakeMaybeMapIterator (GetScanTaskIterator_fn opts ctx) fragments)"

section \<open>Consumers\<close>

text \<open>
  The downstream consumer is not part of the unit. To speak about what a sequence yields,
  \<open>Pull n\<close> pulls it \<open>n\<close> times and collects the elements, the end included.
\<close>

fun Pull ::
  "nat \<Rightarrow> ('s, 'a) iterator \<Rightarrow> world \<Rightarrow> 'a result option list \<times> ('s, 'a) iterator \<times> world" where
  "Pull 0 it w = ([], it, w)"
| "Pull (Suc n) it w =
     (case Next it w of
        (r, it', w') \<Rightarrow> (case Pull n it' w' of (rs, it'', w'') \<Rightarrow> (r # rs, it'', w'')))"

fun FlattenPull ::
  "nat \<Rightarrow> ('c, 'p, 'a) flatten_iterator \<Rightarrow> world
     \<Rightarrow> ('a result option list \<times> ('c, 'p, 'a) flatten_iterator \<times> world) option" where
  "FlattenPull 0 it w = Some ([], it, w)"
| "FlattenPull (Suc n) it w =
     (case FlattenNext it w of
        None \<Rightarrow> None
      | Some (r, it', w') \<Rightarrow>
          (case FlattenPull n it' w' of
             None \<Rightarrow> None
           | Some (rs, it'', w'') \<Rightarrow> Some (r # rs, it'', w'')))"

text \<open>
  Modelled from the spec: the consumer of one task's batch sequence (the scheduler, not
  in the unit), which pulls the sequence to completion. A failure inside a task's batch
  sequence ends that sequence, so this consumer stops at the end or at the first
  failure, whichever comes first, and never pulls after either. \<open>Consume n\<close> is such
  a consumer that is prepared to take \<open>n\<close> elements.
\<close>

fun Consume ::
  "nat \<Rightarrow> ('s, 'a) iterator \<Rightarrow> world \<Rightarrow> 'a result option list \<times> ('s, 'a) iterator \<times> world" where
  "Consume 0 it w = ([], it, w)"
| "Consume (Suc n) it w =
     (case Next it w of
        (None, it', w') \<Rightarrow> ([None], it', w')
      | (Some (Inl e), it', w') \<Rightarrow> ([Some (Inl e)], it', w')
      | (Some (Inr x), it', w') \<Rightarrow>
          (case Consume n it' w' of (rs, it'', w'') \<Rightarrow> (Some (Inr x) # rs, it'', w'')))"

section \<open>Reading the trace\<close>

text \<open>
  What the spec says a decorated task yields for one element of the raw sequence: the
  batch is filtered first, and the filtered batch is projected. A failure of the raw
  sequence, of the evaluation or of the selection is the element. The second function
  lists the collaborator calls this makes, in order.
\<close>

definition filter_then_project ::
  "expression_evaluator \<Rightarrow> expression \<Rightarrow> memory_pool \<Rightarrow> record_batch_projector
     \<Rightarrow> record_batch result \<Rightarrow> record_batch result" where
  "filter_then_project ev flt pl prj x =
     (case x of
        Inl e \<Rightarrow> Inl e
      | Inr b \<Rightarrow>
          (case Evaluate ev flt b pl of
             Inl e \<Rightarrow> Inl e
           | Inr sel \<Rightarrow>
               (case Filter ev sel b of
                  Inl e \<Rightarrow> Inl e
                | Inr fb \<Rightarrow> fst (Project prj fb pl))))"

definition filter_then_project_events ::
  "expression_evaluator \<Rightarrow> expression \<Rightarrow> memory_pool \<Rightarrow> nat
     \<Rightarrow> record_batch result \<Rightarrow> event list" where
  "filter_then_project_events ev flt pl p x =
     (case x of
        Inl e \<Rightarrow> []
      | Inr b \<Rightarrow>
          (case Evaluate ev flt b pl of
             Inl e \<Rightarrow> [EvEvaluate flt b]
           | Inr sel \<Rightarrow>
               (case Filter ev sel b of
                  Inl e \<Rightarrow> [EvEvaluate flt b, EvFilter sel b]
                | Inr fb \<Rightarrow>
                    [EvEvaluate flt b, EvFilter sel b, EvCopyProjector p, EvProject fb])))"

fun is_copy :: "event \<Rightarrow> bool" where
  "is_copy (EvCopyProjector a) = True"
| "is_copy e = False"

fun is_assume :: "event \<Rightarrow> bool" where
  "is_assume (EvAssume e g) = True"
| "is_assume e = False"

text \<open>
  The elements of a sequence up to and including its first failure: what a consumer
  that stops at the first failure gets to see.
\<close>

fun is_ok :: "'a result \<Rightarrow> bool" where
  "is_ok (Inr x) = True"
| "is_ok (Inl e) = False"

fun upto_failure :: "'a result list \<Rightarrow> 'a result list" where
  "upto_failure [] = []"
| "upto_failure (Inl e # xs) = [Inl e]"
| "upto_failure (Inr x # xs) = Inr x # upto_failure xs"



section \<open>The flattened sequence, read eagerly\<close>

text \<open>
  What the spec says the materializer yields, written as plain recursion over the
  fragments and their raw tasks: per fragment, in order, a failed scan contributes its
  failure as one element, a successful scan contributes its raw tasks in order, each
  wrapped with the fragment's partition predicate. These are compared with the lazy
  sequence of the source.
\<close>

fun eager_wrap ::
  "expression option \<Rightarrow> scan_task result list \<Rightarrow> world
     \<Rightarrow> filter_and_project_scan_task result list \<times> world" where
  "eager_wrap part [] w = ([], w)"
| "eager_wrap part (Inl e # xs) w =
     (case eager_wrap part xs w of (ts, w') \<Rightarrow> (Inl e # ts, w'))"
| "eager_wrap part (Inr tsk # xs) w =
     (case FilterAndProjectScanTask tsk part w of
        (t, w1) \<Rightarrow> (case eager_wrap part xs w1 of (ts, w') \<Rightarrow> (Inr t # ts, w')))"

fun eager_materialize ::
  "scan_options \<Rightarrow> scan_context \<Rightarrow> fragment result list \<Rightarrow> world
     \<Rightarrow> filter_and_project_scan_task result list \<times> world" where
  "eager_materialize opts ctx [] w = ([], w)"
| "eager_materialize opts ctx (Inl e # frs) w =
     (case eager_materialize opts ctx frs w of (ts, w') \<Rightarrow> (Inl e # ts, w'))"
| "eager_materialize opts ctx (Inr frag # frs) w =
     (case scan_result frag of
        Inl e \<Rightarrow>
          (case eager_materialize opts ctx frs (emit (EvScan frag) w) of
             (ts, w') \<Rightarrow> (Inl e # ts, w'))
      | Inr bodies \<Rightarrow>
          (case eager_wrap (partition_expression frag) (raw_tasks opts ctx bodies)
                  (emit (EvScan frag) w) of
             (ts1, w1) \<Rightarrow>
               (case eager_materialize opts ctx frs w1 of (ts, w') \<Rightarrow> (ts1 @ ts, w'))))"

text \<open>A fragment whose scan succeeds and yields the given raw tasks, none of them a failure.\<close>

definition ok_fragment :: "expression option \<times> task_body list \<Rightarrow> fragment" where
  "ok_fragment spec =
     \<lparr> partition_expression = fst spec, scan_result = Inr (map Inr (snd spec)) \<rparr>"

text \<open>What is read off a decorated task: its partition predicate and the raw task it wraps.\<close>

definition task_view ::
  "filter_and_project_scan_task result option
     \<Rightarrow> (expression option \<times> scan_task) result option" where
  "task_view = map_option (map_sum id (\<lambda>t. (fp_partition t, fp_task t)))"

section \<open>Example inputs\<close>

definition ex_projector :: record_batch_projector where
  "ex_projector =
     \<lparr> to_schema = [(''id'', int64), (''region'', utf8)], default_values = [],
       scratch_rows = 0 \<rparr>"

text \<open>A world whose only object is the template of the options, at address 0.\<close>

definition ex_world :: world where
  "ex_world = \<lparr> trace = [], projectors = (\<lambda>a. ex_projector), next_addr = 1 \<rparr>"

definition ex_filter :: expression where
  "ex_filter = FieldEquals ''id'' (Int64Scalar 1)"

definition ex_options :: scan_options where
  "ex_options = \<lparr> filter_expr = ex_filter, evaluator = TreeEvaluator, projector = 0 \<rparr>"

definition ex_context :: scan_context where
  "ex_context = \<lparr> pool = 0 \<rparr>"

definition ex_batch1 :: record_batch where
  "ex_batch1 = [[(''id'', Int64Scalar 1)], [(''id'', Int64Scalar 2)]]"

definition ex_batch2 :: record_batch where
  "ex_batch2 = [[(''id'', Int64Scalar 1)], [(''id'', Int64Scalar 1)]]"


definition ex_west :: expression where
  "ex_west = FieldEquals ''region'' (StringScalar ''west'')"

definition ex_raw_task :: scan_task where
  "ex_raw_task =
     \<lparr> task_options = ex_options, task_context = ex_context,
       task_batches = Inr [Inr ex_batch1, Inr ex_batch2] \<rparr>"

text \<open>
  The decorated task the constructor makes of \<open>ex_raw_task\<close> in \<open>ex_world\<close>, with
  and without a partition predicate, and the world the constructor leaves.
\<close>

definition ex_task :: "expression option \<Rightarrow> filter_and_project_scan_task" where
  "ex_task part =
     \<lparr> fp_options = ex_options, fp_context = ex_context, fp_task = ex_raw_task,
       fp_partition = part, fp_filter = None, fp_projector = 1 \<rparr>"

definition ex_world1 :: world where
  "ex_world1 =
     \<lparr> trace = [EvCopyProjector 0], projectors = (\<lambda>a. ex_projector), next_addr = 2 \<rparr>"

text \<open>
  The sequence \<open>Execute\<close> returns for \<open>ex_task part\<close>, and the world it leaves when
  the partition predicate is \<open>ex_west\<close>.
\<close>

definition ex_stage ::
  "expression option \<Rightarrow> (record_batch result list, record_batch) iterator" where
  "ex_stage part =
     ProjectRecordBatch
       (FilterRecordBatch (SequenceIterator [Inr ex_batch1, Inr ex_batch2]) TreeEvaluator
          (Assume ex_filter part) 0)
       1 0"

definition ex_world2 :: world where
  "ex_world2 =
     \<lparr> trace =
         [EvCopyProjector 0, EvExecute (Inr [Inr ex_batch1, Inr ex_batch2]),
          EvAssume ex_filter (Some ex_west), EvSetDefaults ex_west 1],
       projectors =
         (\<lambda>a. if a = 1
              then ex_projector\<lparr>default_values := [(''region'', StringScalar ''west'')]\<rparr>
              else ex_projector),
       next_addr = 2 \<rparr>"

text \<open>
  Raw task bodies told apart by a number, two fragments with two and three raw tasks,
  and a fragment whose scan fails.
\<close>

definition ex_body :: "int \<Rightarrow> task_body" where
  "ex_body k = Inr [Inr [[(''id'', Int64Scalar k)]]]"

definition ex_spec1 :: "expression option \<times> task_body list" where
  "ex_spec1 = (Some ex_west, [ex_body 11, ex_body 12])"

definition ex_spec2 :: "expression option \<times> task_body list" where
  "ex_spec2 = (None, [ex_body 21, ex_body 22, ex_body 23])"

definition ex_failing_fragment :: fragment where
  "ex_failing_fragment =
     \<lparr> partition_expression = None, scan_result = Inl (IOError ''scan failed'') \<rparr>"

definition ex_raw :: "int \<Rightarrow> scan_task" where
  "ex_raw k =
     \<lparr> task_options = ex_options, task_context = ex_context, task_batches = ex_body k \<rparr>"

text \<open>The sequence of decorated tasks the closure \<open>fn\<close> returns for the first fragment.\<close>

definition ex_child ::
  "(expression option \<times> scan_task result list, filter_and_project_scan_task) iterator" where
  "ex_child =
     MakeMapIterator wrap_scan_task (Some ex_west)
       (SequenceIterator [Inr (ex_raw 11), Inr (ex_raw 12)])"

text \<open>
  A world whose object at address 0 is a projector with the default value \<open>west\<close> for
  the column \<open>region\<close>: it projects the example batches without failure.
\<close>

definition ex_world_west :: world where
  "ex_world_west =
     \<lparr> trace = [],
       projectors =
         (\<lambda>a. ex_projector\<lparr>default_values := [(''region'', StringScalar ''west'')]\<rparr>),
       next_addr = 1 \<rparr>"

section \<open>Pulling one element\<close>

lemma trace_emit [simp]: "trace (emit e w) = trace w @ [e]"
  and projectors_emit [simp]: "projectors (emit e w) = projectors w"
  and next_addr_emit [simp]: "next_addr (emit e w) = next_addr w"
  by (simp_all add: emit_def)

lemma trace_store_projector [simp]: "trace (store_projector a p w) = trace w"
  and projectors_store_projector [simp]:
    "projectors (store_projector a p w) = (projectors w)(a := p)"
  and next_addr_store_projector [simp]: "next_addr (store_projector a p w) = next_addr w"
  by (simp_all add: store_projector_def)

lemma Next_SequenceIterator_Nil [simp]:
  "Next (SequenceIterator []) w = (None, SequenceIterator [], w)"
  by (simp add: Next_def SequenceIterator_def)

lemma Next_SequenceIterator_Cons [simp]:
  "Next (SequenceIterator (x # xs)) w = (Some x, SequenceIterator xs, w)"
  by (simp add: Next_def SequenceIterator_def)

lemma Next_MakeMaybeMapIterator:
  "Next (MakeMaybeMapIterator f it) w =
     (case Next it w of
        (None, it', w') \<Rightarrow> (None, MakeMaybeMapIterator f it', w')
      | (Some (Inl e), it', w') \<Rightarrow> (Some (Inl e), MakeMaybeMapIterator f it', w')
      | (Some (Inr i), it', w') \<Rightarrow>
          (case f i w' of (out, w'') \<Rightarrow> (Some out, MakeMaybeMapIterator f it', w'')))"
  by (simp add: Next_def MakeMaybeMapIterator_def split: prod.splits option.splits sum.splits)

lemma Next_MakeMapIterator:
  "Next (MakeMapIterator f c it) w =
     (case Next it w of
        (None, it', w') \<Rightarrow> (None, MakeMapIterator f c it', w')
      | (Some (Inl e), it', w') \<Rightarrow> (Some (Inl e), MakeMapIterator f c it', w')
      | (Some (Inr i), it', w') \<Rightarrow>
          (case f c i w' of ((out, c'), w'') \<Rightarrow> (Some (Inr out), MakeMapIterator f c' it', w'')))"
  by (simp add: Next_def MakeMapIterator_def split: prod.splits option.splits sum.splits)

lemma Next_FilterRecordBatch:
  "Next (FilterRecordBatch it ev flt pl) w =
     (case Next it w of
        (None, it', w') \<Rightarrow> (None, FilterRecordBatch it' ev flt pl, w')
      | (Some (Inl e), it', w') \<Rightarrow> (Some (Inl e), FilterRecordBatch it' ev flt pl, w')
      | (Some (Inr b), it', w') \<Rightarrow>
          (case Evaluate ev flt b pl of
             Inl e \<Rightarrow> (Some (Inl e), FilterRecordBatch it' ev flt pl, emit (EvEvaluate flt b) w')
           | Inr sel \<Rightarrow>
               (Some (Filter ev sel b), FilterRecordBatch it' ev flt pl,
                emit (EvFilter sel b) (emit (EvEvaluate flt b) w'))))"
  unfolding FilterRecordBatch_def Next_MakeMaybeMapIterator
  by (simp add: Result_Map_def Let_def split: prod.splits option.splits sum.splits)

lemma Next_ProjectRecordBatch:
  "Next (ProjectRecordBatch it p pl) w =
     (case Next it w of
        (None, it', w') \<Rightarrow> (None, ProjectRecordBatch it' p pl, w')
      | (Some (Inl e), it', w') \<Rightarrow> (Some (Inl e), ProjectRecordBatch it' p pl, w')
      | (Some (Inr b), it', w') \<Rightarrow>
          (Some (fst (Project (projectors w' p) b pl)), ProjectRecordBatch it' p pl,
           emit (EvProject b) (emit (EvCopyProjector p) w')))"
  unfolding ProjectRecordBatch_def Next_MakeMaybeMapIterator
  by (simp add: Let_def split: prod.splits option.splits sum.splits)

section \<open>The filter stage\<close>

lemma EvaluateRows_length: "EvaluateRows e rs = Inr m \<Longrightarrow> length m = length rs"
  by (induction rs arbitrary: m) (auto split: sum.splits)

lemma ApplyMask_EvaluateRows:
  "EvaluateRows e rs = Inr m \<Longrightarrow> ApplyMask m rs = [r \<leftarrow> rs. EvaluateRow e r = Inr True]"
  by (induction rs arbitrary: m) (auto split: sum.splits)

text \<open>
  Claim C2. When the filter stage pulls a batch and the evaluation of the predicate on it
  succeeds, the element yielded holds exactly the rows of that batch on which the
  predicate evaluates to true: the predicate is evaluated into a selection, and the
  selection is applied to the batch (the trace shows the two calls in this order).
\<close>

theorem FilterRecordBatch_keeps_true_rows:
  assumes "Next it w = (Some (Inr batch), it', w')"
    and "Evaluate TreeEvaluator flt batch pl = Inr selection"
  shows "Next (FilterRecordBatch it TreeEvaluator flt pl) w =
           (Some (Inr [r \<leftarrow> batch. EvaluateRow flt r = Inr True]),
            FilterRecordBatch it' TreeEvaluator flt pl,
            emit (EvFilter selection batch) (emit (EvEvaluate flt batch) w'))
         \<and> Filter TreeEvaluator selection batch =
             Inr [r \<leftarrow> batch. EvaluateRow flt r = Inr True]"
proof -
  from assms(2) have ev: "EvaluateRows flt batch = Inr selection"
    by (simp add: TreeEvaluator_def)
  have flt: "Filter TreeEvaluator selection batch =
               Inr [r \<leftarrow> batch. EvaluateRow flt r = Inr True]"
    using EvaluateRows_length [OF ev] ApplyMask_EvaluateRows [OF ev]
    by (simp add: TreeEvaluator_def)
  show ?thesis
    using assms flt by (simp add: Next_FilterRecordBatch)
qed

theorem FilterRecordBatch_keeps_true_rows_witness:
  "Next (FilterRecordBatch (SequenceIterator [Inr ex_batch1]) TreeEvaluator ex_filter 0) ex_world =
     (Some (Inr [[(''id'', Int64Scalar 1)]]),
      FilterRecordBatch (SequenceIterator []) TreeEvaluator ex_filter 0,
      emit (EvFilter [True, False] ex_batch1) (emit (EvEvaluate ex_filter ex_batch1) ex_world))"
proof -
  have h1: "Next (SequenceIterator [Inr ex_batch1]) ex_world =
              (Some (Inr ex_batch1), SequenceIterator [], ex_world)"
    by simp
  have h2: "Evaluate TreeEvaluator ex_filter ex_batch1 0 = Inr [True, False]"
    by (simp add: TreeEvaluator_def ex_filter_def ex_batch1_def)
  show ?thesis
    using FilterRecordBatch_keeps_true_rows [OF h1 h2]
    by (simp add: ex_filter_def ex_batch1_def)
qed




section \<open>The projection stage\<close>

lemma Next_ProjectRecordBatch_Cons:
  "Next (ProjectRecordBatch (SequenceIterator (Inr b # xs)) p pl) w =
     (Some (fst (Project (projectors w p) b pl)),
      ProjectRecordBatch (SequenceIterator xs) p pl,
      w\<lparr>trace := trace w @ [EvCopyProjector p, EvProject b]\<rparr>)"
  by (simp add: Next_ProjectRecordBatch emit_def)

lemma Consume_ProjectRecordBatch:
  "Consume n (ProjectRecordBatch (SequenceIterator (map Inr bs)) p pl) w =
     (map Some (upto_failure (take n (map (\<lambda>b. fst (Project (projectors w p) b pl)) bs)))
        @ (if length bs < n
              \<and> list_all is_ok (map (\<lambda>b. fst (Project (projectors w p) b pl)) bs)
           then [None] else []),
      ProjectRecordBatch
        (SequenceIterator
           (map Inr (drop (length (upto_failure
                         (take n (map (\<lambda>b. fst (Project (projectors w p) b pl)) bs)))) bs)))
        p pl,
      w\<lparr>trace := trace w
           @ concat (map (\<lambda>b. [EvCopyProjector p, EvProject b])
               (take (length (upto_failure
                        (take n (map (\<lambda>b. fst (Project (projectors w p) b pl)) bs)))) bs))\<rparr>)"
proof (induction n arbitrary: bs w)
  case 0
  show ?case by simp
next
  case (Suc n)
  show ?case
  proof (cases bs)
    case Nil
    then show ?thesis
      by (simp add: Next_ProjectRecordBatch)
  next
    case (Cons b bs')
    show ?thesis
    proof (cases "fst (Project (projectors w p) b pl)")
      case (Inl e)
      with Cons show ?thesis
        by (simp add: Next_ProjectRecordBatch_Cons)
    next
      case (Inr out)
      with Cons show ?thesis
        by (simp add: Next_ProjectRecordBatch_Cons Suc.IH)
    qed
  qed
qed

lemma length_upto_failure: "length (upto_failure xs) \<le> length xs"
  by (induction xs rule: upto_failure.induct) simp_all

lemma length_filter_is_copy:
  "length (filter is_copy (concat (map (\<lambda>b. [EvCopyProjector p, EvProject b]) bs))) = length bs"
  by (induction bs) simp_all

text \<open>
  Claim C3, amended. The projection stage copies the projector once per pulled batch:
  a consumer that takes up to \<open>n\<close> elements of a sequence of batches, and stops at the
  first failure, is handed one element per batch it pulled; for every one of these
  batches one local projector was copy-constructed from the object the pointer refers
  to and the batch was projected with that copy, so there are as many copies as pulled
  batches; nothing is written to the store.
\<close>

theorem ProjectRecordBatch_copies_per_batch:
  "Consume n (ProjectRecordBatch (SequenceIterator (map Inr bs)) p pl) w =
     (map Some (upto_failure (take n (map (\<lambda>b. fst (Project (projectors w p) b pl)) bs)))
        @ (if length bs < n
              \<and> list_all is_ok (map (\<lambda>b. fst (Project (projectors w p) b pl)) bs)
           then [None] else []),
      ProjectRecordBatch
        (SequenceIterator
           (map Inr (drop (length (upto_failure
                         (take n (map (\<lambda>b. fst (Project (projectors w p) b pl)) bs)))) bs)))
        p pl,
      w\<lparr>trace := trace w
           @ concat (map (\<lambda>b. [EvCopyProjector p, EvProject b])
               (take (length (upto_failure
                        (take n (map (\<lambda>b. fst (Project (projectors w p) b pl)) bs)))) bs))\<rparr>)
   \<and> length (filter is_copy
         (trace (snd (snd (Consume n
            (ProjectRecordBatch (SequenceIterator (map Inr bs)) p pl) w))))) =
       length (filter is_copy (trace w))
       + length (upto_failure (take n (map (\<lambda>b. fst (Project (projectors w p) b pl)) bs)))"
proof -
  have "length (upto_failure (take n (map (\<lambda>b. fst (Project (projectors w p) b pl)) bs)))
          \<le> length bs"
    using length_upto_failure
      [of "take n (map (\<lambda>b. fst (Project (projectors w p) b pl)) bs)"]
    by simp
  then show ?thesis
    by (simp add: Consume_ProjectRecordBatch length_filter_is_copy min_absorb2)
qed

theorem ProjectRecordBatch_copies_per_batch_witness:
  "Consume 3 (ProjectRecordBatch (SequenceIterator [Inr ex_batch1, Inr ex_batch2]) 0 0)
     ex_world_west =
     ([Some (Inr [[(''id'', Int64Scalar 1), (''region'', StringScalar ''west'')],
                  [(''id'', Int64Scalar 2), (''region'', StringScalar ''west'')]]),
       Some (Inr [[(''id'', Int64Scalar 1), (''region'', StringScalar ''west'')],
                  [(''id'', Int64Scalar 1), (''region'', StringScalar ''west'')]]),
       None],
      ProjectRecordBatch (SequenceIterator []) 0 0,
      ex_world_west\<lparr>trace := [EvCopyProjector 0, EvProject ex_batch1,
                                 EvCopyProjector 0, EvProject ex_batch2]\<rparr>)"
  using ProjectRecordBatch_copies_per_batch
    [of 3 "[ex_batch1, ex_batch2]" 0 0 ex_world_west]
  by (simp add: ex_world_west_def ex_projector_def Project_def ex_batch1_def ex_batch2_def
      eval_nat_numeral)

text \<open>
  Claim C3 as stated fails: one constructed sequence of two batches, both of which are
  projected without failure, copies the projector twice, not once.
\<close>

theorem ProjectRecordBatch_copies_twice:
  "fst (Pull 2 (ProjectRecordBatch (SequenceIterator [Inr ex_batch1, Inr ex_batch2]) 0 0)
          ex_world_west) =
     [Some (Inr [[(''id'', Int64Scalar 1), (''region'', StringScalar ''west'')],
                 [(''id'', Int64Scalar 2), (''region'', StringScalar ''west'')]]),
      Some (Inr [[(''id'', Int64Scalar 1), (''region'', StringScalar ''west'')],
                 [(''id'', Int64Scalar 1), (''region'', StringScalar ''west'')]])]
   \<and> length (filter is_copy
     (trace (snd (snd (Pull 2
        (ProjectRecordBatch (SequenceIterator [Inr ex_batch1, Inr ex_batch2]) 0 0)
        ex_world_west))))) = 2
   \<and> length (filter is_copy
     (trace (snd (snd (Pull 2
        (ProjectRecordBatch (SequenceIterator [Inr ex_batch1, Inr ex_batch2]) 0 0)
        ex_world_west))))) \<noteq> 1"
  by (simp add: eval_nat_numeral Next_ProjectRecordBatch ex_world_west_def ex_projector_def
      Project_def ex_batch1_def ex_batch2_def)

section \<open>Executing a decorated task\<close>

lemma ex_constructor:
  "FilterAndProjectScanTask ex_raw_task part ex_world = (ex_task part, ex_world1)"
  by (simp add: FilterAndProjectScanTask_def allocate_def ex_raw_task_def ex_world_def
      ex_task_def ex_world1_def ex_options_def store_projector_def emit_def Let_def
      fun_eq_iff)

lemma Pull_Project_Filter:
  "Pull n (ProjectRecordBatch (FilterRecordBatch (SequenceIterator raw) ev flt pl) p pl) w =
     (map (\<lambda>x. Some (filter_then_project ev flt pl (projectors w p) x)) (take n raw)
        @ replicate (n - length raw) None,
      ProjectRecordBatch (FilterRecordBatch (SequenceIterator (drop n raw)) ev flt pl) p pl,
      w\<lparr>trace := trace w @ concat (map (filter_then_project_events ev flt pl p) (take n raw))\<rparr>)"
proof (induction n arbitrary: raw w)
  case 0
  show ?case by simp
next
  case (Suc n)
  show ?case
  proof (cases raw)
    case Nil
    then show ?thesis
      using Suc.IH [of "[]" w]
      by (simp add: Next_ProjectRecordBatch Next_FilterRecordBatch)
  next
    case (Cons x xs)
    then show ?thesis
      by (simp add: Next_ProjectRecordBatch Next_FilterRecordBatch Suc.IH
          filter_then_project_def filter_then_project_events_def emit_def
          split: sum.splits)
  qed
qed

lemma Next_stage_Nil:
  "Next (ProjectRecordBatch (FilterRecordBatch (SequenceIterator []) ev flt pl) p pl) w =
     (None, ProjectRecordBatch (FilterRecordBatch (SequenceIterator []) ev flt pl) p pl, w)"
  by (simp add: Next_ProjectRecordBatch Next_FilterRecordBatch)

lemma Next_stage_Cons:
  "Next (ProjectRecordBatch (FilterRecordBatch (SequenceIterator (x # xs)) ev flt pl) p pl) w =
     (Some (filter_then_project ev flt pl (projectors w p) x),
      ProjectRecordBatch (FilterRecordBatch (SequenceIterator xs) ev flt pl) p pl,
      w\<lparr>trace := trace w @ filter_then_project_events ev flt pl p x\<rparr>)"
  by (simp add: Next_ProjectRecordBatch Next_FilterRecordBatch
      filter_then_project_def filter_then_project_events_def emit_def
      split: sum.splits)

lemma Consume_Project_Filter:
  "Consume n (ProjectRecordBatch (FilterRecordBatch (SequenceIterator raw) ev flt pl) p pl) w =
     (map Some (upto_failure (take n (map (filter_then_project ev flt pl (projectors w p)) raw)))
        @ (if length raw < n \<and> list_all is_ok (map (filter_then_project ev flt pl (projectors w p)) raw)
           then [None] else []),
      ProjectRecordBatch
        (FilterRecordBatch
           (SequenceIterator
              (drop (length (upto_failure
                       (take n (map (filter_then_project ev flt pl (projectors w p)) raw)))) raw))
           ev flt pl) p pl,
      w\<lparr>trace := trace w
           @ concat (map (filter_then_project_events ev flt pl p)
               (take (length (upto_failure
                        (take n (map (filter_then_project ev flt pl (projectors w p)) raw)))) raw))\<rparr>)"
proof (induction n arbitrary: raw w)
  case 0
  show ?case by simp
next
  case (Suc n)
  show ?case
  proof (cases raw)
    case Nil
    then show ?thesis
      by (simp add: Next_stage_Nil)
  next
    case (Cons x xs)
    show ?thesis
    proof (cases "filter_then_project ev flt pl (projectors w p) x")
      case (Inl e)
      with Cons show ?thesis
        by (simp add: Next_stage_Cons)
    next
      case (Inr out)
      with Cons show ?thesis
        by (simp add: Next_stage_Cons Suc.IH)
    qed
  qed
qed

lemma Execute_cases:
  assumes "task_batches (fp_task t) = Inr raw"
  shows "Execute t w =
     (case fp_partition t of
        None \<Rightarrow>
          (Inr (ProjectRecordBatch
                  (FilterRecordBatch (SequenceIterator raw) (evaluator (fp_options t))
                     (Assume (filter_expr (fp_options t)) (fp_partition t)) (pool (fp_context t)))
                  (fp_projector t) (pool (fp_context t))),
           t\<lparr>fp_filter := Some (Assume (filter_expr (fp_options t)) (fp_partition t))\<rparr>,
           emit (EvAssume (filter_expr (fp_options t)) (fp_partition t))
             (emit (EvExecute (Inr raw)) w))
      | Some part \<Rightarrow>
          (case SetDefaultValuesFromKeys part (projectors w (fp_projector t)) of
             Inl e \<Rightarrow>
               (Inl e,
                t\<lparr>fp_filter := Some (Assume (filter_expr (fp_options t)) (fp_partition t))\<rparr>,
                emit (EvSetDefaults part (fp_projector t))
                  (emit (EvAssume (filter_expr (fp_options t)) (fp_partition t))
                     (emit (EvExecute (Inr raw)) w)))
           | Inr p' \<Rightarrow>
               (Inr (ProjectRecordBatch
                       (FilterRecordBatch (SequenceIterator raw) (evaluator (fp_options t))
                          (Assume (filter_expr (fp_options t)) (fp_partition t))
                          (pool (fp_context t)))
                       (fp_projector t) (pool (fp_context t))),
                t\<lparr>fp_filter := Some (Assume (filter_expr (fp_options t)) (fp_partition t))\<rparr>,
                store_projector (fp_projector t) p'
                  (emit (EvSetDefaults part (fp_projector t))
                     (emit (EvAssume (filter_expr (fp_options t)) (fp_partition t))
                        (emit (EvExecute (Inr raw)) w))))))"
  using assms
  by (simp add: Execute_def ScanTaskExecute_def Let_def split: option.splits sum.splits)

lemma Execute_Inr_raw:
  assumes "Execute t w = (Inr it, t', w')"
  shows "\<exists>raw. task_batches (fp_task t) = Inr raw"
  using assms
  by (cases "task_batches (fp_task t)") (simp_all add: Execute_def ScanTaskExecute_def)

lemma filter_is_assume_events:
  "filter is_assume (concat (map (filter_then_project_events ev flt pl p) xs)) = []"
  by (induction xs) (auto simp: filter_then_project_events_def split: sum.splits)

text \<open>
  Claim C1. For a task whose wrapped task starts and whose default values can be set,
  \<open>Execute\<close> returns a sequence. It executed the wrapped task first, then computed the
  specialized predicate, the global filter of the options with the task's partition
  predicate assumed, once, and stored it on the task. The sequence returned is the
  projection stage built over the filter stage built over the raw sequence with that
  predicate. Consumed to completion, it hands over, for every raw element up to the
  first failure, that element filtered first and projected afterwards, with the
  collaborator calls in this order, and no further specialization happens.
\<close>

theorem Execute_filters_then_projects:
  assumes "task_batches (fp_task t) = Inr raw"
    and "\<forall>part. fp_partition t = Some part
           \<longrightarrow> is_ok (SetDefaultValuesFromKeys part (projectors w (fp_projector t)))"
  shows "\<exists>it t' w'.
     Execute t w = (Inr it, t', w')
     \<and> it = ProjectRecordBatch
              (FilterRecordBatch (SequenceIterator raw) (evaluator (fp_options t))
                 (Assume (filter_expr (fp_options t)) (fp_partition t))
                 (pool (fp_context t)))
              (fp_projector t) (pool (fp_context t))
     \<and> fp_filter t' = Some (Assume (filter_expr (fp_options t)) (fp_partition t))
     \<and> trace w' =
         trace w
         @ [EvExecute (Inr raw), EvAssume (filter_expr (fp_options t)) (fp_partition t)]
         @ (case fp_partition t of
              None \<Rightarrow> []
            | Some part \<Rightarrow> [EvSetDefaults part (fp_projector t)])
     \<and> (\<forall>n. fst (Consume n it w') =
            map Some (upto_failure (take n
              (map (filter_then_project (evaluator (fp_options t))
                      (Assume (filter_expr (fp_options t)) (fp_partition t))
                      (pool (fp_context t)) (projectors w' (fp_projector t))) raw)))
            @ (if length raw < n
                  \<and> list_all is_ok
                      (map (filter_then_project (evaluator (fp_options t))
                              (Assume (filter_expr (fp_options t)) (fp_partition t))
                              (pool (fp_context t)) (projectors w' (fp_projector t))) raw)
               then [None] else []))
     \<and> (\<forall>n. trace (snd (snd (Consume n it w'))) =
            trace w'
            @ concat (map (filter_then_project_events (evaluator (fp_options t))
                             (Assume (filter_expr (fp_options t)) (fp_partition t))
                             (pool (fp_context t)) (fp_projector t))
                (take (length (upto_failure (take n
                    (map (filter_then_project (evaluator (fp_options t))
                            (Assume (filter_expr (fp_options t)) (fp_partition t))
                            (pool (fp_context t)) (projectors w' (fp_projector t))) raw))))
                  raw)))
     \<and> (\<forall>n. filter is_assume (trace (snd (snd (Consume n it w')))) =
            filter is_assume (trace w)
            @ [EvAssume (filter_expr (fp_options t)) (fp_partition t)])"
proof -
  let ?flt = "Assume (filter_expr (fp_options t)) (fp_partition t)"
  let ?it = "ProjectRecordBatch
               (FilterRecordBatch (SequenceIterator raw) (evaluator (fp_options t)) ?flt
                  (pool (fp_context t)))
               (fp_projector t) (pool (fp_context t))"
  obtain r t' w' where ex: "Execute t w = (r, t', w')"
    by (cases "Execute t w") auto
  from ex assms(2) have r: "r = Inr ?it" and t': "fp_filter t' = Some ?flt"
    and tr: "trace w' =
         trace w @ [EvExecute (Inr raw), EvAssume (filter_expr (fp_options t)) (fp_partition t)]
         @ (case fp_partition t of
              None \<Rightarrow> []
            | Some part \<Rightarrow> [EvSetDefaults part (fp_projector t)])"
    by (auto simp: Execute_cases [OF assms(1)] split: option.splits sum.splits)
  let ?outs = "\<lambda>n. upto_failure (take n
      (map (filter_then_project (evaluator (fp_options t)) ?flt (pool (fp_context t))
              (projectors w' (fp_projector t))) raw))"
  have c1: "fst (Consume n ?it w') =
      map Some (?outs n)
      @ (if length raw < n
            \<and> list_all is_ok
                (map (filter_then_project (evaluator (fp_options t)) ?flt
                        (pool (fp_context t)) (projectors w' (fp_projector t))) raw)
         then [None] else [])" for n
    by (simp add: Consume_Project_Filter)
  have c2: "trace (snd (snd (Consume n ?it w'))) =
      trace w' @ concat (map (filter_then_project_events (evaluator (fp_options t)) ?flt
                                (pool (fp_context t)) (fp_projector t))
                           (take (length (?outs n)) raw))" for n
    by (simp add: Consume_Project_Filter)
  have c3: "filter is_assume (trace (snd (snd (Consume n ?it w')))) =
      filter is_assume (trace w) @ [EvAssume (filter_expr (fp_options t)) (fp_partition t)]"
    for n
    by (simp add: c2 tr filter_is_assume_events split: option.splits)
  show ?thesis
    using ex r t' tr c1 c2 c3 by (intro exI [of _ ?it] exI [of _ t'] exI [of _ w']) simp
qed

text \<open>
  Claim C7. For a task without a partition predicate, \<open>Execute\<close> builds the filter
  stage with the global filter of the options unchanged, and skips the injection of
  default values: the store of projectors is left as it was and the trace shows the
  execution of the wrapped task and the specialization only.
\<close>

theorem Execute_without_partition:
  assumes "fp_partition t = None" and "task_batches (fp_task t) = Inr raw"
  shows "Execute t w =
     (Inr (ProjectRecordBatch
             (FilterRecordBatch (SequenceIterator raw) (evaluator (fp_options t))
                (filter_expr (fp_options t)) (pool (fp_context t)))
             (fp_projector t) (pool (fp_context t))),
      t\<lparr>fp_filter := Some (filter_expr (fp_options t))\<rparr>,
      w\<lparr>trace := trace w @ [EvExecute (Inr raw), EvAssume (filter_expr (fp_options t)) None]\<rparr>)"
  using assms by (simp add: Execute_cases [OF assms(2)] Assume_def emit_def)

lemma ex_Execute_west:
  "Execute (ex_task (Some ex_west)) ex_world1 =
     (Inr (ex_stage (Some ex_west)),
      (ex_task (Some ex_west))\<lparr>fp_filter := Some (Assume ex_filter (Some ex_west))\<rparr>,
      ex_world2)"
  by (simp add: Execute_cases [of _ "[Inr ex_batch1, Inr ex_batch2]"] ex_task_def
      ex_raw_task_def ex_options_def ex_context_def ex_stage_def ex_world1_def ex_world2_def
      SetDefaultValuesFromKeys_def SetDefaultValue_def ex_west_def ex_projector_def
      store_projector_def emit_def fun_eq_iff)

theorem Execute_filters_then_projects_witness:
  "\<exists>t' w'.
     Execute (ex_task (Some ex_west)) ex_world1 = (Inr (ex_stage (Some ex_west)), t', w')
     \<and> fp_filter t' = Some ex_filter
     \<and> trace w' =
         [EvCopyProjector 0, EvExecute (Inr [Inr ex_batch1, Inr ex_batch2]),
          EvAssume ex_filter (Some ex_west), EvSetDefaults ex_west 1]
     \<and> fst (Consume 3 (ex_stage (Some ex_west)) w') =
         [Some (Inr [[(''id'', Int64Scalar 1), (''region'', StringScalar ''west'')]]),
          Some (Inr [[(''id'', Int64Scalar 1), (''region'', StringScalar ''west'')],
                     [(''id'', Int64Scalar 1), (''region'', StringScalar ''west'')]]),
          None]
     \<and> filter is_assume (trace (snd (snd (Consume 3 (ex_stage (Some ex_west)) w')))) =
         [EvAssume ex_filter (Some ex_west)]"
proof -
  have h1: "task_batches (fp_task (ex_task (Some ex_west))) =
              Inr [Inr ex_batch1, Inr ex_batch2]"
    by (simp add: ex_task_def ex_raw_task_def)
  have h2: "\<forall>part. fp_partition (ex_task (Some ex_west)) = Some part
      \<longrightarrow> is_ok (SetDefaultValuesFromKeys part
                  (projectors ex_world1 (fp_projector (ex_task (Some ex_west)))))"
    by (simp add: ex_task_def ex_world1_def ex_west_def ex_projector_def
        SetDefaultValuesFromKeys_def SetDefaultValue_def)
  from Execute_filters_then_projects [OF h1 h2] obtain it t' w' where
    ex: "Execute (ex_task (Some ex_west)) ex_world1 = (Inr it, t', w')"
    and flt: "fp_filter t' = Some (Assume (filter_expr (fp_options (ex_task (Some ex_west))))
                (fp_partition (ex_task (Some ex_west))))"
    and tr: "trace w' =
         trace ex_world1
         @ [EvExecute (Inr [Inr ex_batch1, Inr ex_batch2]),
            EvAssume (filter_expr (fp_options (ex_task (Some ex_west))))
              (fp_partition (ex_task (Some ex_west)))]
         @ (case fp_partition (ex_task (Some ex_west)) of
              None \<Rightarrow> []
            | Some part \<Rightarrow> [EvSetDefaults part (fp_projector (ex_task (Some ex_west)))])"
    and c1: "\<forall>n. fst (Consume n it w') =
            map Some (upto_failure (take n
              (map (filter_then_project (evaluator (fp_options (ex_task (Some ex_west))))
                      (Assume (filter_expr (fp_options (ex_task (Some ex_west))))
                         (fp_partition (ex_task (Some ex_west))))
                      (pool (fp_context (ex_task (Some ex_west))))
                      (projectors w' (fp_projector (ex_task (Some ex_west)))))
                 [Inr ex_batch1, Inr ex_batch2])))
            @ (if length [Inr ex_batch1, Inr ex_batch2] < n
                  \<and> list_all is_ok
                      (map (filter_then_project (evaluator (fp_options (ex_task (Some ex_west))))
                              (Assume (filter_expr (fp_options (ex_task (Some ex_west))))
                                 (fp_partition (ex_task (Some ex_west))))
                              (pool (fp_context (ex_task (Some ex_west))))
                              (projectors w' (fp_projector (ex_task (Some ex_west)))))
                         [Inr ex_batch1, Inr ex_batch2])
               then [None] else [])"
    and c3: "\<forall>n. filter is_assume (trace (snd (snd (Consume n it w')))) =
            filter is_assume (trace ex_world1)
            @ [EvAssume (filter_expr (fp_options (ex_task (Some ex_west))))
                 (fp_partition (ex_task (Some ex_west)))]"
    by auto
  from ex ex_Execute_west have it: "it = ex_stage (Some ex_west)" and w': "w' = ex_world2"
    by simp_all
  have a: "Assume ex_filter (Some ex_west) = ex_filter"
    by (simp add: Assume_def ex_filter_def ex_west_def)
  have out1: "filter_then_project TreeEvaluator ex_filter 0 (projectors ex_world2 (Suc 0))
                (Inr ex_batch1) =
              Inr [[(''id'', Int64Scalar 1), (''region'', StringScalar ''west'')]]"
    and out2: "filter_then_project TreeEvaluator ex_filter 0 (projectors ex_world2 (Suc 0))
                (Inr ex_batch2) =
              Inr [[(''id'', Int64Scalar 1), (''region'', StringScalar ''west'')],
                   [(''id'', Int64Scalar 1), (''region'', StringScalar ''west'')]]"
    by (simp_all add: filter_then_project_def TreeEvaluator_def ex_filter_def ex_batch1_def
        ex_batch2_def ex_world2_def Project_def ex_projector_def)
  have r1: "fp_filter t' = Some ex_filter"
    using flt by (simp add: ex_task_def ex_options_def a)
  have r2: "trace w' =
         [EvCopyProjector 0, EvExecute (Inr [Inr ex_batch1, Inr ex_batch2]),
          EvAssume ex_filter (Some ex_west), EvSetDefaults ex_west 1]"
    using tr by (simp add: ex_task_def ex_options_def ex_world1_def)
  have r3: "fst (Consume 3 (ex_stage (Some ex_west)) w') =
         [Some (Inr [[(''id'', Int64Scalar 1), (''region'', StringScalar ''west'')]]),
          Some (Inr [[(''id'', Int64Scalar 1), (''region'', StringScalar ''west'')],
                     [(''id'', Int64Scalar 1), (''region'', StringScalar ''west'')]]),
          None]"
    using c1 [rule_format, of 3]
    by (simp add: it w' ex_task_def ex_options_def ex_context_def a out1 out2)
  have r4: "filter is_assume (trace (snd (snd (Consume 3 (ex_stage (Some ex_west)) w')))) =
         [EvAssume ex_filter (Some ex_west)]"
    using c3 [rule_format, of 3]
    by (simp add: it ex_task_def ex_options_def ex_world1_def)
  show ?thesis
    using ex r1 r2 r3 r4 by (simp add: it)
qed

theorem Execute_without_partition_witness:
  "Execute (ex_task None) ex_world1 =
     (Inr (ex_stage None),
      (ex_task None)\<lparr>fp_filter := Some ex_filter\<rparr>,
      ex_world1\<lparr>trace := [EvCopyProjector 0, EvExecute (Inr [Inr ex_batch1, Inr ex_batch2]),
                           EvAssume ex_filter None]\<rparr>)"
proof -
  have h1: "fp_partition (ex_task None) = None"
    by (simp add: ex_task_def)
  have h2: "task_batches (fp_task (ex_task None)) = Inr [Inr ex_batch1, Inr ex_batch2]"
    by (simp add: ex_task_def ex_raw_task_def)
  show ?thesis
    using Execute_without_partition [OF h1 h2, of ex_world1]
    by (simp add: ex_task_def ex_options_def ex_context_def ex_stage_def Assume_def
        ex_world1_def)
qed

section \<open>The projector objects\<close>

lemma FilterAndProjectScanTask_fields:
  assumes "FilterAndProjectScanTask tsk part w0 = (t, w)"
  shows "fp_options t = task_options tsk" and "fp_context t = task_context tsk"
    and "fp_task t = tsk" and "fp_partition t = part" and "fp_filter t = None"
    and "fp_projector t = next_addr w0" and "next_addr w = Suc (next_addr w0)"
    and "trace w = trace w0 @ [EvCopyProjector (projector (task_options tsk))]"
    and "projectors w =
           (projectors w0)(next_addr w0 := projectors w0 (projector (task_options tsk)))"
  using assms
  by (auto simp: FilterAndProjectScanTask_def allocate_def Let_def)

lemma Execute_projectors:
  assumes "Execute t w = (r, t', w')"
  shows "\<forall>a. a \<noteq> fp_projector t \<longrightarrow> projectors w' a = projectors w a"
  using assms
  by (auto simp: Execute_def ScanTaskExecute_def Let_def
      split: option.splits sum.splits)

text \<open>
  Claim C9. A decorated task is constructed from a raw task whose options hold the
  template projector (an object that exists before the task does) and is executed. The
  task's projector is an object other than the template, and the template holds what it
  held before the task was constructed, whatever \<open>Execute\<close> returns. When it returns a
  sequence, pulling any number of elements from it writes nothing to the store, so the
  task's own projector member is as \<open>Execute\<close> left it: every \<open>Project\<close> call ran on
  a local copy.
\<close>

theorem projection_leaves_projectors_unchanged:
  assumes "FilterAndProjectScanTask tsk part w0 = (t, w)"
    and "projector (task_options tsk) < next_addr w0"
    and "Execute t w = (r, t', w')"
  shows "fp_projector t \<noteq> projector (fp_options t)
         \<and> projectors w' (projector (fp_options t)) =
             projectors w0 (projector (fp_options t))
         \<and> (\<forall>it n. r = Inr it \<longrightarrow> projectors (snd (snd (Pull n it w'))) = projectors w')"
proof -
  note c = FilterAndProjectScanTask_fields [OF assms(1)]
  have ne: "fp_projector t \<noteq> projector (fp_options t)"
    using assms(2) by (simp add: c)
  have tmpl: "projectors w' (projector (fp_options t)) =
                projectors w0 (projector (fp_options t))"
    using Execute_projectors [OF assms(3)] ne assms(2) by (simp add: c)
  have pulls: "projectors (snd (snd (Pull n it w'))) = projectors w'"
    if r: "r = Inr it" for it n
  proof -
    from assms(3) r obtain raw where raw: "task_batches (fp_task t) = Inr raw"
      using Execute_Inr_raw by blast
    from assms(3) r have it: "it = ProjectRecordBatch
        (FilterRecordBatch (SequenceIterator raw) (evaluator (fp_options t))
           (Assume (filter_expr (fp_options t)) (fp_partition t)) (pool (fp_context t)))
        (fp_projector t) (pool (fp_context t))"
      by (auto simp: Execute_cases [OF raw] split: option.splits sum.splits)
    show ?thesis
      by (simp add: it Pull_Project_Filter)
  qed
  show ?thesis
    using ne tmpl pulls by blast
qed

theorem projection_leaves_projectors_unchanged_witness:
  "(1::nat) \<noteq> 0
   \<and> projectors ex_world2 0 = ex_projector
   \<and> (\<forall>n. projectors (snd (snd (Pull n (ex_stage (Some ex_west)) ex_world2))) =
            projectors ex_world2)
   \<and> (\<forall>n. projectors (snd (snd (Pull n (ex_stage (Some ex_west)) ex_world2))) 0 =
            ex_projector)"
proof -
  have h2: "projector (task_options ex_raw_task) < next_addr ex_world"
    by (simp add: ex_raw_task_def ex_options_def ex_world_def)
  show ?thesis
    using projection_leaves_projectors_unchanged [OF ex_constructor h2 ex_Execute_west]
    by (simp add: ex_task_def ex_options_def ex_world_def)
qed

section \<open>Default values from the partition predicate\<close>

lemma SetDefaultValue_schema:
  "SetDefaultValue p name x = Inr p' \<Longrightarrow> to_schema p' = to_schema p"
  by (auto simp: SetDefaultValue_def split: option.splits if_splits)

lemma SetDefaultValues_schema:
  "SetDefaultValues keys p = Inr p' \<Longrightarrow> to_schema p' = to_schema p"
proof (induction keys arbitrary: p)
  case Nil
  then show ?case by simp
next
  case (Cons k keys)
  obtain name x where k: "k = (name, x)" by (cases k)
  from Cons.prems k obtain p1 where p1: "SetDefaultValue p name x = Inr p1"
    and rest: "SetDefaultValues keys p1 = Inr p'"
    by (auto split: sum.splits)
  show ?case
    using Cons.IH [OF rest] SetDefaultValue_schema [OF p1] by simp
qed

lemma SetDefaultValue_default:
  assumes "SetDefaultValue p name x = Inr p'" and "col \<in> fst ` set (to_schema p)"
  shows "map_of (default_values p') col =
           (if name = col then Some x else map_of (default_values p) col)"
proof -
  from assms(2) have "map_of (to_schema p) col \<noteq> None"
    by (simp add: map_of_eq_None_iff)
  with assms(1) show ?thesis
    by (auto simp: SetDefaultValue_def split: option.splits if_splits)
qed

lemma SetDefaultValues_default:
  assumes "SetDefaultValues keys p = Inr p'" and "col \<in> fst ` set (to_schema p)"
  shows "map_of (default_values p') col =
           (case map_of (rev keys) col of
              Some v \<Rightarrow> Some v
            | None \<Rightarrow> map_of (default_values p) col)"
  using assms
proof (induction keys arbitrary: p)
  case Nil
  then show ?case by simp
next
  case (Cons k keys)
  obtain name x where k: "k = (name, x)" by (cases k)
  from Cons.prems(1) k obtain p1 where p1: "SetDefaultValue p name x = Inr p1"
    and rest: "SetDefaultValues keys p1 = Inr p'"
    by (auto split: sum.splits)
  have col1: "col \<in> fst ` set (to_schema p1)"
    using Cons.prems(2) SetDefaultValue_schema [OF p1] by simp
  show ?case
    using Cons.IH [OF rest col1] SetDefaultValue_default [OF p1 Cons.prems(2)] k
    by (auto simp: map_add_def split: option.splits)
qed

lemma ProjectRow_default:
  assumes "ProjectRow schema defaults r = Inr out" and "map_of r col = None"
    and "map_of defaults col = Some v" and "col \<in> fst ` set schema"
  shows "map_of out col = Some v"
  using assms
proof (induction schema arbitrary: out)
  case Nil
  then show ?case by simp
next
  case (Cons f schema)
  obtain name ty where f: "f = (name, ty)" by (cases f)
  show ?case
  proof (cases "name = col")
    case True
    with Cons.prems f show ?thesis
      by (auto split: sum.splits)
  next
    case False
    with Cons.prems f have "col \<in> fst ` set schema" by auto
    with Cons.prems f False Cons.IH show ?thesis
      by (auto split: sum.splits option.splits if_splits)
  qed
qed

lemma ProjectRows_rows:
  assumes "ProjectRows schema defaults rs = Inr outs" and "out \<in> set outs"
  shows "\<exists>r\<in>set rs. ProjectRow schema defaults r = Inr out"
  using assms
  by (induction rs arbitrary: outs) (auto split: sum.splits)

lemma set_ApplyMask: "set (ApplyMask m rs) \<subseteq> set rs"
  by (induction m rs rule: ApplyMask.induct) auto

lemma filter_then_project_default:
  assumes "filter_then_project TreeEvaluator flt pl prj (Inr b) = Inr out"
    and "\<forall>r\<in>set b. map_of r col = None"
    and "map_of (default_values prj) col = Some v"
    and "col \<in> fst ` set (to_schema prj)"
    and "r' \<in> set out"
  shows "map_of r' col = Some v"
proof -
  from assms(1) obtain sel where
    out: "ProjectRows (to_schema prj) (default_values prj) (ApplyMask sel b) = Inr out"
    by (auto simp: filter_then_project_def TreeEvaluator_def Project_def
        split: sum.splits if_splits)
  from ProjectRows_rows [OF out assms(5)] obtain r where
    r: "r \<in> set (ApplyMask sel b)"
    and pr: "ProjectRow (to_schema prj) (default_values prj) r = Inr r'"
    by blast
  from r set_ApplyMask have "r \<in> set b" by blast
  with assms(2) have "map_of r col = None" by blast
  from ProjectRow_default [OF pr this assms(3) assms(4)] show ?thesis .
qed

lemma ProjectRows_length:
  "ProjectRows schema defaults rs = Inr outs \<Longrightarrow> length outs = length rs"
  by (induction rs arbitrary: outs) (auto split: sum.splits)

lemma filter_then_project_length:
  assumes "filter_then_project TreeEvaluator flt pl prj (Inr b) = Inr out"
  shows "length out = length [r \<leftarrow> b. EvaluateRow flt r = Inr True]"
proof -
  from assms obtain sel where ev: "EvaluateRows flt b = Inr sel"
    and out: "ProjectRows (to_schema prj) (default_values prj) (ApplyMask sel b) = Inr out"
    by (auto simp: filter_then_project_def TreeEvaluator_def Project_def
        split: sum.splits if_splits)
  show ?thesis
    using ProjectRows_length [OF out] ApplyMask_EvaluateRows [OF ev] by simp
qed

text \<open>
  Claim C6. For a task with a partition predicate, whose wrapped task starts and whose
  default values can be set, \<open>Execute\<close> returns the projection stage, and when it
  returns the task's own projector already holds the default values set from the
  key/value bindings of the partition predicate. So when the predicate binds a column
  of the target schema to a constant (the binding set last wins) and no raw batch has
  that column, the sequence, consumed to completion, hands over one element for every
  raw element up to the first failure, and every batch among them has one row for each
  row of the raw batch that passes the filter, each holding the constant in that column.
\<close>

theorem Execute_injects_partition_defaults:
  assumes "fp_partition t = Some part"
    and "evaluator (fp_options t) = TreeEvaluator"
    and "task_batches (fp_task t) = Inr raw"
    and "SetDefaultValuesFromKeys part (projectors w (fp_projector t)) = Inr p'"
    and "map_of (rev (GetKeys part)) col = Some v"
    and "col \<in> fst ` set (to_schema (projectors w (fp_projector t)))"
    and "\<forall>b. Inr b \<in> set raw \<longrightarrow> (\<forall>r\<in>set b. map_of r col = None)"
  shows "\<exists>it t' w'.
     Execute t w = (Inr it, t', w')
     \<and> it = ProjectRecordBatch
              (FilterRecordBatch (SequenceIterator raw) TreeEvaluator
                 (Assume (filter_expr (fp_options t)) (Some part)) (pool (fp_context t)))
              (fp_projector t) (pool (fp_context t))
     \<and> projectors w' (fp_projector t) = p'
     \<and> map_of (default_values p') col = Some v
     \<and> (\<forall>n. fst (Consume n it w') =
            map Some (upto_failure (take n
              (map (filter_then_project TreeEvaluator
                      (Assume (filter_expr (fp_options t)) (Some part))
                      (pool (fp_context t)) p') raw)))
            @ (if length raw < n
                  \<and> list_all is_ok
                      (map (filter_then_project TreeEvaluator
                              (Assume (filter_expr (fp_options t)) (Some part))
                              (pool (fp_context t)) p') raw)
               then [None] else []))
     \<and> (\<forall>b out. Inr b \<in> set raw
            \<longrightarrow> filter_then_project TreeEvaluator
                  (Assume (filter_expr (fp_options t)) (Some part))
                  (pool (fp_context t)) p' (Inr b) = Inr out
            \<longrightarrow> (\<forall>r\<in>set out. map_of r col = Some v)
                \<and> length out =
                    length [r \<leftarrow> b. EvaluateRow (Assume (filter_expr (fp_options t)) (Some part)) r
                                     = Inr True])"
proof -
  let ?flt = "Assume (filter_expr (fp_options t)) (Some part)"
  let ?p = "fp_projector t"
  let ?it = "ProjectRecordBatch
               (FilterRecordBatch (SequenceIterator raw) TreeEvaluator ?flt
                  (pool (fp_context t))) ?p (pool (fp_context t))"
  obtain r t' w' where ex: "Execute t w = (r, t', w')"
    by (cases "Execute t w") auto
  from ex assms(1,2,4) have r: "r = Inr ?it" and st: "projectors w' ?p = p'"
    by (auto simp: Execute_cases [OF assms(3)] split: option.splits sum.splits)
  from assms(4) have sd: "SetDefaultValues (GetKeys part) (projectors w ?p) = Inr p'"
    by (simp add: SetDefaultValuesFromKeys_def)
  have dv: "map_of (default_values p') col = Some v"
    using SetDefaultValues_default [OF sd assms(6)] assms(5) by simp
  have sch: "col \<in> fst ` set (to_schema p')"
    using SetDefaultValues_schema [OF sd] assms(6) by simp
  have c: "fst (Consume n ?it w') =
      map Some (upto_failure (take n
        (map (filter_then_project TreeEvaluator ?flt (pool (fp_context t)) p') raw)))
      @ (if length raw < n
            \<and> list_all is_ok
                (map (filter_then_project TreeEvaluator ?flt (pool (fp_context t)) p') raw)
         then [None] else [])" for n
    by (simp add: Consume_Project_Filter st)
  have rows: "(\<forall>r\<in>set out. map_of r col = Some v)
      \<and> length out = length [r \<leftarrow> b. EvaluateRow ?flt r = Inr True]"
    if mem: "Inr b \<in> set raw"
      and fx: "filter_then_project TreeEvaluator ?flt (pool (fp_context t)) p' (Inr b) = Inr out"
    for b out
  proof -
    from mem assms(7) have lack: "\<forall>r\<in>set b. map_of r col = None" by blast
    show ?thesis
      using filter_then_project_default [OF fx lack dv sch]
        filter_then_project_length [OF fx] by blast
  qed
  show ?thesis
    using ex r st dv c rows
    by (intro exI [of _ ?it] exI [of _ t'] exI [of _ w']) simp
qed

theorem Execute_injects_partition_defaults_witness:
  "\<exists>t' w'.
     Execute (ex_task (Some ex_west)) ex_world1 = (Inr (ex_stage (Some ex_west)), t', w')
     \<and> default_values (projectors w' 1) = [(''region'', StringScalar ''west'')]
     \<and> fst (Consume 3 (ex_stage (Some ex_west)) w') =
         [Some (Inr [[(''id'', Int64Scalar 1), (''region'', StringScalar ''west'')]]),
          Some (Inr [[(''id'', Int64Scalar 1), (''region'', StringScalar ''west'')],
                     [(''id'', Int64Scalar 1), (''region'', StringScalar ''west'')]]),
          None]"
proof -
  let ?p' = "ex_projector\<lparr>default_values := [(''region'', StringScalar ''west'')]\<rparr>"
  have h1: "fp_partition (ex_task (Some ex_west)) = Some ex_west"
    by (simp add: ex_task_def)
  have h2: "evaluator (fp_options (ex_task (Some ex_west))) = TreeEvaluator"
    by (simp add: ex_task_def ex_options_def)
  have h3: "task_batches (fp_task (ex_task (Some ex_west))) =
              Inr [Inr ex_batch1, Inr ex_batch2]"
    by (simp add: ex_task_def ex_raw_task_def)
  have h4: "SetDefaultValuesFromKeys ex_west
              (projectors ex_world1 (fp_projector (ex_task (Some ex_west)))) = Inr ?p'"
    by (simp add: ex_task_def ex_world1_def ex_west_def ex_projector_def
        SetDefaultValuesFromKeys_def SetDefaultValue_def)
  have h5: "map_of (rev (GetKeys ex_west)) ''region'' = Some (StringScalar ''west'')"
    by (simp add: ex_west_def)
  have h6: "''region'' \<in> fst ` set (to_schema
              (projectors ex_world1 (fp_projector (ex_task (Some ex_west)))))"
    by (simp add: ex_world1_def ex_projector_def)
  have h7: "\<forall>b. Inr b \<in> set [Inr ex_batch1, Inr ex_batch2]
              \<longrightarrow> (\<forall>r\<in>set b. map_of r ''region'' = None)"
    by (auto simp: ex_batch1_def ex_batch2_def)
  from Execute_injects_partition_defaults [OF h1 h2 h3 h4 h5 h6 h7]
  obtain it t' w' where
    ex: "Execute (ex_task (Some ex_west)) ex_world1 = (Inr it, t', w')"
    and it: "it = ProjectRecordBatch
              (FilterRecordBatch (SequenceIterator [Inr ex_batch1, Inr ex_batch2]) TreeEvaluator
                 (Assume (filter_expr (fp_options (ex_task (Some ex_west)))) (Some ex_west))
                 (pool (fp_context (ex_task (Some ex_west)))))
              (fp_projector (ex_task (Some ex_west))) (pool (fp_context (ex_task (Some ex_west))))"
    and st: "projectors w' (fp_projector (ex_task (Some ex_west))) = ?p'"
    and c: "\<forall>n. fst (Consume n it w') =
            map Some (upto_failure (take n
              (map (filter_then_project TreeEvaluator
                      (Assume (filter_expr (fp_options (ex_task (Some ex_west)))) (Some ex_west))
                      (pool (fp_context (ex_task (Some ex_west)))) ?p')
                 [Inr ex_batch1, Inr ex_batch2])))
            @ (if length [Inr ex_batch1, Inr ex_batch2] < n
                  \<and> list_all is_ok
                      (map (filter_then_project TreeEvaluator
                              (Assume (filter_expr (fp_options (ex_task (Some ex_west))))
                                 (Some ex_west))
                              (pool (fp_context (ex_task (Some ex_west)))) ?p')
                         [Inr ex_batch1, Inr ex_batch2])
               then [None] else [])"
    by auto
  have its: "it = ex_stage (Some ex_west)"
    using it by (simp add: ex_stage_def ex_task_def ex_options_def ex_context_def)
  have a: "Assume ex_filter (Some ex_west) = ex_filter"
    by (simp add: Assume_def ex_filter_def ex_west_def)
  have out1: "filter_then_project TreeEvaluator ex_filter 0 ?p' (Inr ex_batch1) =
              Inr [[(''id'', Int64Scalar 1), (''region'', StringScalar ''west'')]]"
    and out2: "filter_then_project TreeEvaluator ex_filter 0 ?p' (Inr ex_batch2) =
              Inr [[(''id'', Int64Scalar 1), (''region'', StringScalar ''west'')],
                   [(''id'', Int64Scalar 1), (''region'', StringScalar ''west'')]]"
    by (simp_all add: filter_then_project_def TreeEvaluator_def ex_filter_def ex_batch1_def
        ex_batch2_def Project_def ex_projector_def)
  have r2: "default_values (projectors w' 1) = [(''region'', StringScalar ''west'')]"
    using st by (simp add: ex_task_def)
  have r3: "fst (Consume 3 (ex_stage (Some ex_west)) w') =
         [Some (Inr [[(''id'', Int64Scalar 1), (''region'', StringScalar ''west'')]]),
          Some (Inr [[(''id'', Int64Scalar 1), (''region'', StringScalar ''west'')],
                     [(''id'', Int64Scalar 1), (''region'', StringScalar ''west'')]]),
          None]"
    using c [rule_format, of 3]
    by (simp add: its ex_task_def ex_options_def ex_context_def a out1 out2)
  show ?thesis
    using ex r2 r3 by (simp add: its)
qed

section \<open>The decorated tasks of one fragment\<close>

lemma Scan_cases:
  "Scan frag opts ctx w =
     ((case scan_result frag of
         Inl e \<Rightarrow> Inl e
       | Inr bodies \<Rightarrow> Inr (SequenceIterator (raw_tasks opts ctx bodies))),
      emit (EvScan frag) w)"
  by (simp add: Scan_def)

lemma wrap_scan_task_eq:
  "wrap_scan_task part tsk w =
     ((fst (FilterAndProjectScanTask tsk part w), part),
      snd (FilterAndProjectScanTask tsk part w))"
  by (simp add: wrap_scan_task_def move_const_def split: prod.splits)

lemma Next_child_Nil:
  "Next (MakeMapIterator wrap_scan_task part (SequenceIterator [])) w =
     (None, MakeMapIterator wrap_scan_task part (SequenceIterator []), w)"
  by (simp add: Next_MakeMapIterator)

lemma Next_child_Inl:
  "Next (MakeMapIterator wrap_scan_task part (SequenceIterator (Inl e # xs))) w =
     (Some (Inl e), MakeMapIterator wrap_scan_task part (SequenceIterator xs), w)"
  by (simp add: Next_MakeMapIterator)

lemma Next_child_Inr:
  "Next (MakeMapIterator wrap_scan_task part (SequenceIterator (Inr tsk # xs))) w =
     (Some (Inr (fst (FilterAndProjectScanTask tsk part w))),
      MakeMapIterator wrap_scan_task part (SequenceIterator xs),
      snd (FilterAndProjectScanTask tsk part w))"
  by (simp add: Next_MakeMapIterator wrap_scan_task_eq)

lemma Pull_child:
  "Pull n (MakeMapIterator wrap_scan_task part (SequenceIterator xs)) w =
     (map Some (fst (eager_wrap part (take n xs) w)) @ replicate (n - length xs) None,
      MakeMapIterator wrap_scan_task part (SequenceIterator (drop n xs)),
      snd (eager_wrap part (take n xs) w))"
proof (induction n arbitrary: xs w)
  case 0
  show ?case by simp
next
  case (Suc n)
  show ?case
  proof (cases xs)
    case Nil
    then show ?thesis
      using Suc.IH [of "[]" w] by (simp add: Next_child_Nil)
  next
    case (Cons x xs')
    show ?thesis
    proof (cases x)
      case (Inl e)
      with Cons show ?thesis
        by (simp add: Next_child_Inl Suc.IH split: prod.splits)
    next
      case (Inr tsk)
      with Cons show ?thesis
        by (simp add: Next_child_Inr Suc.IH split: prod.splits)
    qed
  qed
qed

lemma eager_wrap_Inl:
  "fst (eager_wrap part (Inl e # xs) w) = Inl e # fst (eager_wrap part xs w)"
  "snd (eager_wrap part (Inl e # xs) w) = snd (eager_wrap part xs w)"
  by (simp_all split: prod.splits)

lemma eager_wrap_Inr:
  "fst (eager_wrap part (Inr tsk # xs) w) =
     Inr (fst (FilterAndProjectScanTask tsk part w))
     # fst (eager_wrap part xs (snd (FilterAndProjectScanTask tsk part w)))"
  "snd (eager_wrap part (Inr tsk # xs) w) =
     snd (eager_wrap part xs (snd (FilterAndProjectScanTask tsk part w)))"
  by (simp_all split: prod.splits)

lemma cursor_MakeMapIterator: "cursor (MakeMapIterator f c it) = (c, cursor it)"
  by (simp add: MakeMapIterator_def)

lemma eager_wrap_partition:
  "Inr t \<in> set (fst (eager_wrap part xs w)) \<Longrightarrow> fp_partition t = part"
proof (induction xs arbitrary: w)
  case Nil
  then show ?case by simp
next
  case (Cons x xs)
  show ?case
  proof (cases x)
    case (Inl e)
    with Cons show ?thesis by (auto simp del: eager_wrap.simps simp: eager_wrap_Inl)
  next
    case (Inr tsk)
    have "fp_partition (fst (FilterAndProjectScanTask tsk part w)) = part"
      by (rule FilterAndProjectScanTask_fields(4) [of tsk part w _ "snd (FilterAndProjectScanTask tsk part w)"])
        simp
    with Cons Inr show ?thesis by (auto simp del: eager_wrap.simps simp: eager_wrap_Inr)
  qed
qed

text \<open>
  Claim C10. For a fragment whose scan succeeds, every decorated task pulled from the
  sequence of its tasks, the second and all later ones included, carries the fragment's
  partition predicate, and the wrapping closure still holds it after every call: the
  closure is not mutable, so \<^verbatim>\<open>std::move\<close> on its capture copies.
\<close>

theorem wrapped_tasks_carry_partition:
  assumes "GetScanTaskIterator_fn opts ctx frag w = (Inr it, w1)"
  shows "(\<forall>n t. Some (Inr t) \<in> set (fst (Pull n it w1))
            \<longrightarrow> fp_partition t = partition_expression frag)
         \<and> (\<forall>n. fst (cursor (fst (snd (Pull n it w1)))) = partition_expression frag)"
proof -
  from assms obtain bodies where
    it: "it = MakeMapIterator wrap_scan_task (partition_expression frag)
               (SequenceIterator (raw_tasks opts ctx bodies))"
    by (auto simp: GetScanTaskIterator_fn_def Scan_cases Let_def split: sum.splits)
  have a: "fp_partition t = partition_expression frag"
    if "Some (Inr t) \<in> set (fst (Pull n it w1))" for n t
    using that by (auto simp: it Pull_child dest: eager_wrap_partition)
  have b: "fst (cursor (fst (snd (Pull n it w1)))) = partition_expression frag" for n
    by (simp add: it Pull_child cursor_MakeMapIterator)
  show ?thesis using a b by blast
qed

lemma ex_fn:
  "GetScanTaskIterator_fn ex_options ex_context (ok_fragment ex_spec1) ex_world =
     (Inr ex_child, emit (EvScan (ok_fragment ex_spec1)) ex_world)"
  by (simp add: GetScanTaskIterator_fn_def Scan_cases ok_fragment_def ex_spec1_def
      ex_child_def raw_tasks_def raw_task_def ex_raw_def Let_def)

theorem wrapped_tasks_carry_partition_witness:
  "\<not> (\<exists>n t. Some (Inr t) \<in> set (fst (Pull n ex_child (emit (EvScan (ok_fragment ex_spec1)) ex_world)))
          \<and> fp_partition t \<noteq> Some ex_west)
   \<and> map (map_option (map_sum id fp_partition))
         (fst (Pull 2 ex_child (emit (EvScan (ok_fragment ex_spec1)) ex_world))) =
       [Some (Inr (Some ex_west)), Some (Inr (Some ex_west))]
   \<and> fst (cursor (fst (snd (Pull 2 ex_child (emit (EvScan (ok_fragment ex_spec1)) ex_world))))) =
       Some ex_west"
proof -
  note th = wrapped_tasks_carry_partition [OF ex_fn]
  have p: "partition_expression (ok_fragment ex_spec1) = Some ex_west"
    by (simp add: ok_fragment_def ex_spec1_def)
  have a: "\<not> (\<exists>n t. Some (Inr t) \<in> set (fst (Pull n ex_child (emit (EvScan (ok_fragment ex_spec1)) ex_world)))
          \<and> fp_partition t \<noteq> Some ex_west)"
    using th p by auto
  have c: "fst (cursor (fst (snd (Pull 2 ex_child (emit (EvScan (ok_fragment ex_spec1)) ex_world))))) =
       Some ex_west"
    using th p by auto
  have b: "map (map_option (map_sum id fp_partition))
         (fst (Pull 2 ex_child (emit (EvScan (ok_fragment ex_spec1)) ex_world))) =
       [Some (Inr (Some ex_west)), Some (Inr (Some ex_west))]"
    by (simp add: ex_child_def Pull_child FilterAndProjectScanTask_def allocate_def Let_def
        split: prod.splits)
  show ?thesis using a b c by blast
qed

section \<open>The flattened sequence\<close>

lemma eager_materialize_Nil:
  "fst (eager_materialize opts ctx [] w) = []"
  "snd (eager_materialize opts ctx [] w) = w"
  by simp_all

lemma eager_materialize_Inl:
  "fst (eager_materialize opts ctx (Inl e # frs) w) =
     Inl e # fst (eager_materialize opts ctx frs w)"
  "snd (eager_materialize opts ctx (Inl e # frs) w) = snd (eager_materialize opts ctx frs w)"
  by (simp_all split: prod.splits)

lemma eager_materialize_fail:
  assumes "scan_result frag = Inl e"
  shows "fst (eager_materialize opts ctx (Inr frag # frs) w) =
           Inl e # fst (eager_materialize opts ctx frs (emit (EvScan frag) w))"
    and "snd (eager_materialize opts ctx (Inr frag # frs) w) =
           snd (eager_materialize opts ctx frs (emit (EvScan frag) w))"
  using assms by (simp_all split: prod.splits)

lemma eager_materialize_ok:
  assumes "scan_result frag = Inr bodies"
  shows "fst (eager_materialize opts ctx (Inr frag # frs) w) =
           fst (eager_wrap (partition_expression frag) (raw_tasks opts ctx bodies)
                  (emit (EvScan frag) w))
           @ fst (eager_materialize opts ctx frs
                    (snd (eager_wrap (partition_expression frag) (raw_tasks opts ctx bodies)
                            (emit (EvScan frag) w))))"
    and "snd (eager_materialize opts ctx (Inr frag # frs) w) =
           snd (eager_materialize opts ctx frs
                  (snd (eager_wrap (partition_expression frag) (raw_tasks opts ctx bodies)
                          (emit (EvScan frag) w))))"
  using assms by (simp_all split: prod.splits)

lemma Next_parent_Nil:
  "Next (MakeMaybeMapIterator (GetScanTaskIterator_fn opts ctx) (SequenceIterator [])) w =
     (None, MakeMaybeMapIterator (GetScanTaskIterator_fn opts ctx) (SequenceIterator []), w)"
  by (simp add: Next_MakeMaybeMapIterator)

lemma Next_parent_Inl:
  "Next (MakeMaybeMapIterator (GetScanTaskIterator_fn opts ctx) (SequenceIterator (Inl e # frs))) w =
     (Some (Inl e),
      MakeMaybeMapIterator (GetScanTaskIterator_fn opts ctx) (SequenceIterator frs), w)"
  by (simp add: Next_MakeMaybeMapIterator)

lemma Next_parent_fail:
  assumes "scan_result frag = Inl e"
  shows "Next (MakeMaybeMapIterator (GetScanTaskIterator_fn opts ctx)
                 (SequenceIterator (Inr frag # frs))) w =
     (Some (Inl e),
      MakeMaybeMapIterator (GetScanTaskIterator_fn opts ctx) (SequenceIterator frs),
      emit (EvScan frag) w)"
  using assms
  by (simp add: Next_MakeMaybeMapIterator GetScanTaskIterator_fn_def Scan_cases)

lemma Next_parent_ok:
  assumes "scan_result frag = Inr bodies"
  shows "Next (MakeMaybeMapIterator (GetScanTaskIterator_fn opts ctx)
                 (SequenceIterator (Inr frag # frs))) w =
     (Some (Inr (MakeMapIterator wrap_scan_task (partition_expression frag)
                   (SequenceIterator (raw_tasks opts ctx bodies)))),
      MakeMaybeMapIterator (GetScanTaskIterator_fn opts ctx) (SequenceIterator frs),
      emit (EvScan frag) w)"
  using assms
  by (simp add: Next_MakeMaybeMapIterator GetScanTaskIterator_fn_def Scan_cases Let_def)

lemma FlattenNext_child_Nil:
  "FlattenNext (FlattenIterator
       (Some (MakeMapIterator wrap_scan_task part (SequenceIterator []))) p) w =
     FlattenNext (FlattenIterator None p) w"
  by (subst FlattenNext.simps) (simp add: Next_child_Nil)

lemma FlattenNext_child_Inl:
  "FlattenNext (FlattenIterator
       (Some (MakeMapIterator wrap_scan_task part (SequenceIterator (Inl e # xs)))) p) w =
     Some (Some (Inl e),
           FlattenIterator (Some (MakeMapIterator wrap_scan_task part (SequenceIterator xs))) p,
           w)"
  by (subst FlattenNext.simps) (simp add: Next_child_Inl)

lemma FlattenNext_child_Inr:
  "FlattenNext (FlattenIterator
       (Some (MakeMapIterator wrap_scan_task part (SequenceIterator (Inr tsk # xs)))) p) w =
     Some (Some (Inr (fst (FilterAndProjectScanTask tsk part w))),
           FlattenIterator (Some (MakeMapIterator wrap_scan_task part (SequenceIterator xs))) p,
           snd (FilterAndProjectScanTask tsk part w))"
  by (subst FlattenNext.simps) (simp add: Next_child_Inr)

lemma FlattenNext_parent_Nil:
  "FlattenNext (FlattenIterator None
       (MakeMaybeMapIterator (GetScanTaskIterator_fn opts ctx) (SequenceIterator []))) w =
     Some (None,
           FlattenIterator None
             (MakeMaybeMapIterator (GetScanTaskIterator_fn opts ctx) (SequenceIterator [])),
           w)"
  by (subst FlattenNext.simps) (simp add: Next_parent_Nil)

lemma FlattenNext_parent_Inl:
  "FlattenNext (FlattenIterator None
       (MakeMaybeMapIterator (GetScanTaskIterator_fn opts ctx)
          (SequenceIterator (Inl e # frs)))) w =
     Some (Some (Inl e),
           FlattenIterator None
             (MakeMaybeMapIterator (GetScanTaskIterator_fn opts ctx) (SequenceIterator frs)),
           w)"
  by (subst FlattenNext.simps) (simp add: Next_parent_Inl)

lemma FlattenNext_parent_fail:
  assumes "scan_result frag = Inl e"
  shows "FlattenNext (FlattenIterator None
       (MakeMaybeMapIterator (GetScanTaskIterator_fn opts ctx)
          (SequenceIterator (Inr frag # frs)))) w =
     Some (Some (Inl e),
           FlattenIterator None
             (MakeMaybeMapIterator (GetScanTaskIterator_fn opts ctx) (SequenceIterator frs)),
           emit (EvScan frag) w)"
  by (subst FlattenNext.simps) (simp add: Next_parent_fail [OF assms])

lemma FlattenNext_parent_ok:
  assumes "scan_result frag = Inr bodies"
  shows "FlattenNext (FlattenIterator None
       (MakeMaybeMapIterator (GetScanTaskIterator_fn opts ctx)
          (SequenceIterator (Inr frag # frs)))) w =
     FlattenNext (FlattenIterator
       (Some (MakeMapIterator wrap_scan_task (partition_expression frag)
                (SequenceIterator (raw_tasks opts ctx bodies))))
       (MakeMaybeMapIterator (GetScanTaskIterator_fn opts ctx) (SequenceIterator frs)))
       (emit (EvScan frag) w)"
  by (subst FlattenNext.simps) (simp add: Next_parent_ok [OF assms])

lemma FlattenPull_child:
  assumes rest: "\<And>w. FlattenPull (Suc (length (fst (eager_materialize opts ctx frs w))))
        (FlattenIterator None
           (MakeMaybeMapIterator (GetScanTaskIterator_fn opts ctx) (SequenceIterator frs))) w =
      Some (map Some (fst (eager_materialize opts ctx frs w)) @ [None],
            FlattenIterator None
              (MakeMaybeMapIterator (GetScanTaskIterator_fn opts ctx) (SequenceIterator [])),
            snd (eager_materialize opts ctx frs w))"
  shows "FlattenPull
           (Suc (length (fst (eager_wrap part xs w))
                 + length (fst (eager_materialize opts ctx frs (snd (eager_wrap part xs w))))))
           (FlattenIterator
              (Some (MakeMapIterator wrap_scan_task part (SequenceIterator xs)))
              (MakeMaybeMapIterator (GetScanTaskIterator_fn opts ctx) (SequenceIterator frs)))
           w =
         Some (map Some (fst (eager_wrap part xs w)
                         @ fst (eager_materialize opts ctx frs (snd (eager_wrap part xs w))))
               @ [None],
               FlattenIterator None
                 (MakeMaybeMapIterator (GetScanTaskIterator_fn opts ctx) (SequenceIterator [])),
               snd (eager_materialize opts ctx frs (snd (eager_wrap part xs w))))"
proof (induction xs arbitrary: w)
  case Nil
  show ?case
    using rest [of w] by (simp add: FlattenNext_child_Nil)
next
  case (Cons x xs)
  show ?case
  proof (cases x)
    case (Inl e)
    show ?thesis
      using Cons.IH [of w]
      by (simp del: eager_wrap.simps FlattenPull.simps
          add: Inl eager_wrap_Inl FlattenPull.simps(2) [of _ "FlattenIterator (Some _) _"]
            FlattenNext_child_Inl)
  next
    case (Inr tsk)
    show ?thesis
      using Cons.IH [of "snd (FilterAndProjectScanTask tsk part w)"]
      by (simp del: eager_wrap.simps FlattenPull.simps
          add: Inr eager_wrap_Inr FlattenPull.simps(2) [of _ "FlattenIterator (Some _) _"]
            FlattenNext_child_Inr)
  qed
qed

lemma FlattenPull_drain:
  "FlattenPull (Suc (length (fst (eager_materialize opts ctx frs w))))
        (FlattenIterator None
           (MakeMaybeMapIterator (GetScanTaskIterator_fn opts ctx) (SequenceIterator frs))) w =
      Some (map Some (fst (eager_materialize opts ctx frs w)) @ [None],
            FlattenIterator None
              (MakeMaybeMapIterator (GetScanTaskIterator_fn opts ctx) (SequenceIterator [])),
            snd (eager_materialize opts ctx frs w))"
proof (induction frs arbitrary: w)
  case Nil
  show ?case by (simp add: FlattenNext_parent_Nil)
next
  case (Cons fr frs)
  show ?case
  proof (cases fr)
    case (Inl e)
    show ?thesis
      using Cons.IH [of w]
      by (simp del: eager_materialize.simps FlattenPull.simps
          add: Inl eager_materialize_Inl FlattenPull.simps(2) [of _ "FlattenIterator None _"]
            FlattenNext_parent_Inl)
  next
    case (Inr frag)
    show ?thesis
    proof (cases "scan_result frag")
      case (Inl e)
      show ?thesis
        using Cons.IH [of "emit (EvScan frag) w"]
        by (simp del: eager_materialize.simps FlattenPull.simps
            add: Inr eager_materialize_fail [OF Inl]
              FlattenPull.simps(2) [of _ "FlattenIterator None _"]
              FlattenNext_parent_fail [OF Inl])
    next
      case ok: (Inr bodies)
      have "FlattenPull (Suc (length (fst (eager_materialize opts ctx (Inr frag # frs) w))))
          (FlattenIterator None
             (MakeMaybeMapIterator (GetScanTaskIterator_fn opts ctx)
                (SequenceIterator (Inr frag # frs)))) w =
        FlattenPull (Suc (length (fst (eager_materialize opts ctx (Inr frag # frs) w))))
          (FlattenIterator
             (Some (MakeMapIterator wrap_scan_task (partition_expression frag)
                      (SequenceIterator (raw_tasks opts ctx bodies))))
             (MakeMaybeMapIterator (GetScanTaskIterator_fn opts ctx) (SequenceIterator frs)))
          (emit (EvScan frag) w)"
        by (simp only: FlattenPull.simps FlattenNext_parent_ok [OF ok])
      also have "\<dots> =
        Some (map Some (fst (eager_materialize opts ctx (Inr frag # frs) w)) @ [None],
            FlattenIterator None
              (MakeMaybeMapIterator (GetScanTaskIterator_fn opts ctx) (SequenceIterator [])),
            snd (eager_materialize opts ctx (Inr frag # frs) w))"
        using FlattenPull_child [of opts ctx frs "partition_expression frag"
            "raw_tasks opts ctx bodies" "emit (EvScan frag) w", OF Cons.IH]
        by (simp del: eager_materialize.simps FlattenPull.simps
            add: eager_materialize_ok [OF ok])
      finally show ?thesis by (simp only: Inr)
    qed
  qed
qed

lemma GetScanTaskIterator_drain:
  "FlattenPull (Suc (length (fst (eager_materialize opts ctx frs w))))
        (GetScanTaskIterator (SequenceIterator frs) opts ctx) w =
      Some (map Some (fst (eager_materialize opts ctx frs w)) @ [None],
            FlattenIterator None
              (MakeMaybeMapIterator (GetScanTaskIterator_fn opts ctx) (SequenceIterator [])),
            snd (eager_materialize opts ctx frs w))"
  unfolding GetScanTaskIterator_def MakeFlattenIterator_def
  by (rule FlattenPull_drain)

lemma raw_tasks_simps:
  "raw_tasks opts ctx [] = []"
  "raw_tasks opts ctx (Inr b # bodies) = Inr (raw_task opts ctx b) # raw_tasks opts ctx bodies"
  "raw_tasks opts ctx (Inl e # bodies) = Inl e # raw_tasks opts ctx bodies"
  by (simp_all add: raw_tasks_def)

lemma task_view_simps:
  "task_view None = None"
  "task_view (Some (Inl e)) = Some (Inl e)"
  "task_view (Some (Inr t)) = Some (Inr (fp_partition t, fp_task t))"
  by (simp_all add: task_view_def)

lemma constructor_view:
  "fp_partition (fst (FilterAndProjectScanTask tsk part w)) = part"
  "fp_task (fst (FilterAndProjectScanTask tsk part w)) = tsk"
  "trace (snd (FilterAndProjectScanTask tsk part w)) =
     trace w @ [EvCopyProjector (projector (task_options tsk))]"
  by (simp_all add: FilterAndProjectScanTask_def allocate_def Let_def)

lemma eager_wrap_ok:
  "map (\<lambda>t. task_view (Some t)) (fst (eager_wrap part (raw_tasks opts ctx (map Inr bs)) w)) =
     map (\<lambda>b. Some (Inr (part, raw_task opts ctx b))) bs"
  "length (fst (eager_wrap part (raw_tasks opts ctx (map Inr bs)) w)) = length bs"
  "trace (snd (eager_wrap part (raw_tasks opts ctx (map Inr bs)) w)) =
     trace w @ replicate (length bs) (EvCopyProjector (projector opts))"
proof (induction bs arbitrary: w)
  case Nil
  {
    case 1 show ?case by (simp add: raw_tasks_simps)
  next
    case 2 show ?case by (simp add: raw_tasks_simps)
  next
    case 3 show ?case by (simp add: raw_tasks_simps)
  }
next
  case (Cons b bs)
  {
    case 1 show ?case
      by (simp del: eager_wrap.simps
          add: raw_tasks_simps eager_wrap_Inr task_view_simps constructor_view Cons.IH(1))
  next
    case 2 show ?case
      by (simp del: eager_wrap.simps add: raw_tasks_simps eager_wrap_Inr Cons.IH(2))
  next
    case 3 show ?case
      by (simp del: eager_wrap.simps
          add: raw_tasks_simps eager_wrap_Inr constructor_view Cons.IH(3) raw_task_def
            replicate_append_same)
  }
qed

lemma ok_fragment_simps:
  "scan_result (ok_fragment spec) = Inr (map Inr (snd spec))"
  "partition_expression (ok_fragment spec) = fst spec"
  by (simp_all add: ok_fragment_def)

lemma eager_materialize_ok_fragments:
  "map (\<lambda>t. task_view (Some t))
       (fst (eager_materialize opts ctx (map (\<lambda>spec. Inr (ok_fragment spec)) specs) w)) =
     concat (map (\<lambda>spec. map (\<lambda>b. Some (Inr (fst spec, raw_task opts ctx b))) (snd spec)) specs)"
  "length (fst (eager_materialize opts ctx (map (\<lambda>spec. Inr (ok_fragment spec)) specs) w)) =
     length (concat (map snd specs))"
  "trace (snd (eager_materialize opts ctx (map (\<lambda>spec. Inr (ok_fragment spec)) specs) w)) =
     trace w
     @ concat (map (\<lambda>spec. EvScan (ok_fragment spec)
                             # replicate (length (snd spec)) (EvCopyProjector (projector opts)))
                 specs)"
proof (induction specs arbitrary: w)
  case Nil
  {
    case 1 show ?case by simp
  next
    case 2 show ?case by simp
  next
    case 3 show ?case by simp
  }
next
  case (Cons spec specs)
  note ok = eager_materialize_ok [OF ok_fragment_simps(1), of opts ctx spec]
  {
    case 1 show ?case
      by (simp del: eager_materialize.simps
          add: ok ok_fragment_simps eager_wrap_ok Cons.IH(1))
  next
    case 2 show ?case
      by (simp del: eager_materialize.simps
          add: ok ok_fragment_simps eager_wrap_ok Cons.IH(2))
  next
    case 3 show ?case
      by (simp del: eager_materialize.simps
          add: ok ok_fragment_simps eager_wrap_ok Cons.IH(3))
  }
qed

lemma eager_materialize_append:
  "fst (eager_materialize opts ctx (frs1 @ frs2) w) =
     fst (eager_materialize opts ctx frs1 w)
     @ fst (eager_materialize opts ctx frs2 (snd (eager_materialize opts ctx frs1 w)))
   \<and> snd (eager_materialize opts ctx (frs1 @ frs2) w) =
     snd (eager_materialize opts ctx frs2 (snd (eager_materialize opts ctx frs1 w)))"
proof (induction frs1 arbitrary: w)
  case Nil
  show ?case by simp
next
  case (Cons fr frs1)
  show ?case
  proof (cases fr)
    case (Inl e)
    show ?thesis
      by (simp del: eager_materialize.simps add: Inl eager_materialize_Inl Cons.IH)
  next
    case (Inr frag)
    show ?thesis
    proof (cases "scan_result frag")
      case (Inl e)
      show ?thesis
        by (simp del: eager_materialize.simps
            add: Inr eager_materialize_fail [OF Inl] Cons.IH)
    next
      case ok: (Inr bodies)
      show ?thesis
        by (simp del: eager_materialize.simps
            add: Inr eager_materialize_ok [OF ok] Cons.IH)
    qed
  qed
qed



text \<open>
  Claim C5. When the scan of one fragment fails, with fragments whose scans succeed
  before and after it, the materializer, pulled to its end, yields the tasks of the
  earlier fragments, then exactly one failure element for the failing fragment, then
  the decorated tasks of the later fragments, then the end: the failure does not abort
  the flattened sequence.
\<close>

theorem GetScanTaskIterator_failure_isolation:
  assumes "scan_result failing = Inl e"
  shows "\<exists>rs it' w'.
     FlattenPull (Suc (length (concat (map snd before)) + 1 + length (concat (map snd after))))
       (GetScanTaskIterator
          (SequenceIterator
             (map (\<lambda>spec. Inr (ok_fragment spec)) before
              @ Inr failing # map (\<lambda>spec. Inr (ok_fragment spec)) after))
          opts ctx) w = Some (rs, it', w')
     \<and> map task_view rs =
         concat (map (\<lambda>spec. map (\<lambda>b. Some (Inr (fst spec, raw_task opts ctx b))) (snd spec))
                   before)
         @ [Some (Inl e)]
         @ concat (map (\<lambda>spec. map (\<lambda>b. Some (Inr (fst spec, raw_task opts ctx b))) (snd spec))
                     after)
         @ [None]"
proof -
  let ?ok = "\<lambda>specs. map (\<lambda>spec. Inr (ok_fragment spec)) specs"
  let ?frs = "?ok before @ Inr failing # ?ok after"
  let ?w1 = "snd (eager_materialize opts ctx (?ok before) w)"
  have ts: "fst (eager_materialize opts ctx ?frs w) =
      fst (eager_materialize opts ctx (?ok before) w)
      @ Inl e # fst (eager_materialize opts ctx (?ok after) (emit (EvScan failing) ?w1))"
    by (simp del: eager_materialize.simps
        add: eager_materialize_append eager_materialize_fail [OF assms])
  have len: "length (fst (eager_materialize opts ctx ?frs w)) =
      length (concat (map snd before)) + 1 + length (concat (map snd after))"
    by (simp del: eager_materialize.simps add: ts eager_materialize_ok_fragments)
  have view: "map (\<lambda>t. task_view (Some t)) (fst (eager_materialize opts ctx ?frs w)) =
      concat (map (\<lambda>spec. map (\<lambda>b. Some (Inr (fst spec, raw_task opts ctx b))) (snd spec))
                before)
      @ [Some (Inl e)]
      @ concat (map (\<lambda>spec. map (\<lambda>b. Some (Inr (fst spec, raw_task opts ctx b))) (snd spec))
                  after)"
    by (simp del: eager_materialize.simps
        add: ts eager_materialize_ok_fragments task_view_simps)
  show ?thesis
    using GetScanTaskIterator_drain [of opts ctx ?frs w] view
    by (simp del: FlattenPull.simps eager_materialize.simps
        add: len task_view_simps comp_def)
qed

theorem GetScanTaskIterator_failure_isolation_witness:
  "\<exists>rs it' w'.
     FlattenPull 5
       (GetScanTaskIterator
          (SequenceIterator [Inr ex_failing_fragment, Inr (ok_fragment ex_spec2)])
          ex_options ex_context) ex_world = Some (rs, it', w')
     \<and> map task_view rs =
         [Some (Inl (IOError ''scan failed'')),
          Some (Inr (None, ex_raw 21)), Some (Inr (None, ex_raw 22)),
          Some (Inr (None, ex_raw 23)), None]"
proof -
  have h: "scan_result ex_failing_fragment = Inl (IOError ''scan failed'')"
    by (simp add: ex_failing_fragment_def)
  show ?thesis
    using GetScanTaskIterator_failure_isolation
      [OF h, of "[]" "[ex_spec2]" ex_options ex_context ex_world]
    by (simp del: FlattenPull.simps
        add: ex_spec2_def raw_task_def ex_raw_def eval_nat_numeral)
qed

end
